theory Spec2Isabelle
  imports Complex_Main "HOL-Library.Multiset" "HOL-Library.List_Lexorder" "HOL-Library.Char_ord"
begin

section \<open>Python values and exceptions\<close>

text \<open>
  The migrator is Python. Every exception the modelled code can raise is a constructor
  of \<open>py_error\<close>; a function that can raise returns \<open>py_error + 'a\<close> with
  \<open>Inl\<close> for the exception.
\<close>

datatype py_error =
    KeyError | IndexError | TypeError | ValueError | AttributeError | RecursionError
  | UnboundLocalError | OAuthError


text \<open>Sequencing: the second step runs on the first step's value, an exception ends both.\<close>

definition py_bind :: "py_error + 'a \<Rightarrow> ('a \<Rightarrow> py_error + 'b) \<Rightarrow> py_error + 'b" where
  "py_bind m f = (case m of Inl e \<Rightarrow> Inl e | Inr x \<Rightarrow> f x)"

text \<open>\<open>d[k]\<close> on a dictionary held as an association list, and on an optional key of a JSON object.\<close>

definition dict_item :: "('k \<times> 'v) list \<Rightarrow> 'k \<Rightarrow> py_error + 'v" where
  "dict_item d k = (case map_of d k of None \<Rightarrow> Inl KeyError | Some v \<Rightarrow> Inr v)"

definition key :: "'a option \<Rightarrow> py_error + 'a" where
  "key field = (case field of None \<Rightarrow> Inl KeyError | Some v \<Rightarrow> Inr v)"

section \<open>Token Manager: \<open>_refresh_tokens\<close>, \<open>_get\<close>, \<open>_post\<close>\<close>

text \<open>
  The connection state of the migrator: the two tokens it stores, and two counters that
  record how many HTTP requests and how many token refreshes it has issued so far. The
  counters are not fields of the source; they record the calls of \<open>requests.get\<close>,
  \<open>requests.request\<close> and \<open>oauth.refresh_token\<close>.
\<close>

record conn =
  access_token :: string
  refresh_token :: string
  requests_sent :: nat
  refreshes_done :: nat

datatype http_method = GET | POST

text \<open>
  The two remote parties, which are not part of the repository: the QuickBooks API
  answers the \<open>i\<close>-th request the migrator issues with a status code, and the OAuth
  endpoint answers the \<open>j\<close>-th refresh with a new pair of tokens or with an error
  (\<open>None\<close>), which \<open>oauth.refresh_token\<close> raises.
\<close>

record world =
  respond :: "nat \<Rightarrow> http_method \<Rightarrow> nat"
  refresh_reply :: "nat \<Rightarrow> (string \<times> string) option"

record response =
  status_code :: nat
  request_no :: nat

text \<open>
  \<open>_refresh_tokens\<close>: the call is counted whether it succeeds or raises; on success both
  tokens are replaced.
\<close>

definition refresh_tokens :: "world \<Rightarrow> conn \<Rightarrow> py_error option \<times> conn" where
  "refresh_tokens w s =
     (case refresh_reply w (refreshes_done s) of
        None \<Rightarrow> (Some OAuthError, s\<lparr>refreshes_done := Suc (refreshes_done s)\<rparr>)
      | Some (a, r) \<Rightarrow>
          (None, s\<lparr>access_token := a, refresh_token := r,
                   refreshes_done := Suc (refreshes_done s)\<rparr>))"

text \<open>
  \<open>_get\<close> calls itself after a refresh. The first argument is the number of stack frames
  Python still allows: when none is left the call raises RecursionError, as CPython does
  at its recursion limit.
\<close>

fun get :: "nat \<Rightarrow> world \<Rightarrow> conn \<Rightarrow> (py_error + response) \<times> conn" where
  "get 0 w s = (Inl RecursionError, s)"
| "get (Suc depth) w s =
     (let response = \<lparr>status_code = respond w (requests_sent s) GET,
                      request_no = requests_sent s\<rparr>;
          s1 = s\<lparr>requests_sent := Suc (requests_sent s)\<rparr>
      in if status_code response = 401 then
           (case refresh_tokens w s1 of
              (Some e, s2) \<Rightarrow> (Inl e, s2)
            | (None, s2) \<Rightarrow> get depth w s2)
         else (Inr response, s1))"

text \<open>\<open>_post\<close> has the same body with the POST request.\<close>

fun post :: "nat \<Rightarrow> world \<Rightarrow> conn \<Rightarrow> (py_error + response) \<times> conn" where
  "post 0 w s = (Inl RecursionError, s)"
| "post (Suc depth) w s =
     (let response = \<lparr>status_code = respond w (requests_sent s) POST,
                      request_no = requests_sent s\<rparr>;
          s1 = s\<lparr>requests_sent := Suc (requests_sent s)\<rparr>
      in if status_code response = 401 then
           (case refresh_tokens w s1 of
              (Some e, s2) \<Rightarrow> (Inl e, s2)
            | (None, s2) \<Rightarrow> post depth w s2)
         else (Inr response, s1))"

text \<open>
  Three worlds for the examples. Two of them answer 401 to the first request, or to the
  first two, and 200 afterwards, and every refresh succeeds; in the third every
  request is answered 401 and every refresh fails.
\<close>

definition world_401_once :: world where
  "world_401_once =
     \<lparr>respond = (\<lambda>i m. if i < 1 then 401 else 200),
      refresh_reply = (\<lambda>j. Some (''access'', ''refresh''))\<rparr>"

definition world_401_twice :: world where
  "world_401_twice =
     \<lparr>respond = (\<lambda>i m. if i < 2 then 401 else 200),
      refresh_reply = (\<lambda>j. Some (''access'', ''refresh''))\<rparr>"

definition world_refresh_fails :: world where
  "world_refresh_fails =
     \<lparr>respond = (\<lambda>i m. 401), refresh_reply = (\<lambda>j. None)\<rparr>"

definition conn0 :: conn where
  "conn0 = \<lparr>access_token = ''expired'', refresh_token = ''r0'', requests_sent = 0, refreshes_done = 0\<rparr>"

text \<open>An outbound request of either kind.\<close>

definition outbound :: "http_method \<Rightarrow> nat \<Rightarrow> world \<Rightarrow> conn \<Rightarrow> (py_error + response) \<times> conn" where
  "outbound m = (case m of GET \<Rightarrow> get | POST \<Rightarrow> post)"

section \<open>Entity Fetcher: the paginated query of \<open>_migrate_entries\<close>\<close>

text \<open>
  \<open>range(start, stop, step)\<close> of Python for a positive step, as the list of its
  values. The only call is \<open>range(1, entry_count + 1, max_result_count)\<close>.
\<close>

function py_range :: "int \<Rightarrow> int \<Rightarrow> int \<Rightarrow> int list" where
  "py_range start stop step =
     (if 0 < step \<and> start < stop then start # py_range (start + step) stop step else [])"
  by pat_completeness auto
termination
  by (relation "measure (\<lambda>(start, stop, step). nat (stop - start))") auto

definition max_result_count :: int where
  "max_result_count = 1000"

text \<open>
  The loop \<open>for start_position in range(...)\<close>: each page is requested with
  \<open>STARTPOSITION start_position MAXRESULTS max_result_count\<close> and appended to
  \<open>entries\<close>. The query answer is \<open>response.json()["QueryResponse"].get(entity)\<close>,
  which is \<open>None\<close> when the key is absent; \<open>entries.extend(None)\<close> raises TypeError.
\<close>

fun fetch_pages :: "(int \<Rightarrow> int \<Rightarrow> 'r list option) \<Rightarrow> int list \<Rightarrow> 'r list \<Rightarrow> py_error + 'r list" where
  "fetch_pages select [] entries = Inr entries"
| "fetch_pages select (start_position # ps) entries =
     (case select start_position max_result_count of
        None \<Rightarrow> Inl TypeError
      | Some page \<Rightarrow> fetch_pages select ps (entries @ page))"

text \<open>
  The fetching part of \<open>_migrate_entries\<close>: the count query, whose \<open>totalCount\<close> is read
  with \<open>.get\<close> (\<open>None + 1\<close> raises TypeError), then the pages.
\<close>

definition start_positions :: "int \<Rightarrow> int list" where
  "start_positions entry_count = py_range 1 (entry_count + 1) max_result_count"

definition fetch_entries :: "int option \<Rightarrow> (int \<Rightarrow> int \<Rightarrow> 'r list option) \<Rightarrow> py_error + 'r list" where
  "fetch_entries total_count select =
     (case total_count of
        None \<Rightarrow> Inl TypeError
      | Some entry_count \<Rightarrow> fetch_pages select (start_positions entry_count) [])"

text \<open>
  The QuickBooks query endpoint, which is not part of the repository: over the records
  \<open>xs\<close> of an entity in their natural order, \<open>STARTPOSITION p MAXRESULTS m\<close> answers the
  records at the (1-based) positions \<open>p, ..., p + m - 1\<close> that exist.
\<close>

definition qb_select :: "'r list \<Rightarrow> int \<Rightarrow> int \<Rightarrow> 'r list option" where
  "qb_select xs p m = Some (take (nat m) (drop (nat (p - 1)) xs))"

section \<open>General Ledger Reconstructor\<close>

subsection \<open>Python dictionaries\<close>

text \<open>
  A Python \<open>dict\<close> keeps its keys in the order of their first insertion, and the source
  iterates over \<open>.values()\<close>; so a dictionary is an association list whose keys are
  distinct. \<open>dict_set\<close> is \<open>d[k] = v\<close>: an existing key keeps its place, a new key goes
  to the end. Lookup \<open>d.get(k)\<close> is \<open>map_of d k\<close>.
\<close>

fun dict_set :: "'k \<Rightarrow> 'v \<Rightarrow> ('k \<times> 'v) list \<Rightarrow> ('k \<times> 'v) list" where
  "dict_set k v [] = [(k, v)]"
| "dict_set k v ((k', v') # d) = (if k' = k then (k, v) # d else (k', v') # dict_set k v d)"

text \<open>\<open>d.setdefault(k, []).extend(es)\<close>\<close>

definition setdefault_extend :: "'k \<Rightarrow> 'v list \<Rightarrow> ('k \<times> 'v list) list \<Rightarrow> ('k \<times> 'v list) list" where
  "setdefault_extend k es d = dict_set k ((case map_of d k of None \<Rightarrow> [] | Some v \<Rightarrow> v) @ es) d"

subsection \<open>The report tree and the ledger lines\<close>

text \<open>
  A column of the report is a JSON object with the optional keys \<open>"value"\<close> and \<open>"id"\<close>.
  A row has a \<open>"type"\<close>: a \<open>"Data"\<close> row carries its columns \<open>ColData\<close>; a \<open>"Section"\<close>
  carries an optional \<open>Header\<close> (the columns \<open>Header.ColData\<close>) and its rows
  \<open>Rows.Row\<close> (\<open>None\<close> when the section has no \<open>"Rows"\<close> or no \<open>"Row"\<close> key, which the
  source reads with \<open>section["Rows"]["Row"]\<close>); a row of any other type is ignored by
  the walk.
\<close>

record col =
  col_value :: "string option"
  col_id :: "string option"

datatype row =
    Data "col list"
  | Section "col list option" "row list option"
  | OtherRow

text \<open>
  A ledger line, the dictionary \<open>_get_gl_entries_from_section\<close> appends. The account is
  \<open>None\<close> while no section header has named one (the parameter's default);
  \<open>data[1].get("id")\<close> is \<open>None\<close> when the column has no id. Amounts are the floats
  \<open>frappe.utils.flt\<close> returns, taken here as real numbers.
\<close>

record gl_line =
  l_account :: "string option"
  l_date :: string
  l_type :: string
  l_id :: "string option"
  l_credit :: real
  l_debit :: real

type_synonym gl_entries = "(string option \<times> gl_line list) list"

text \<open>
  What the walk reads from its surroundings: \<open>_get_account_name_by_id\<close> (a lookup in the
  ERP's Account table; no match makes \<open>[0]\<close> raise IndexError), the index
  \<open>self.accounts\<close> from an account's display name to its QuickBooks id (built by
  \<open>_preprocess_accounts\<close>; a missing name raises KeyError), and \<open>frappe.utils.flt\<close>.
\<close>

record gl_env =
  account_name_by_id :: "string \<Rightarrow> string option"
  accounts_index :: "string \<Rightarrow> string option"
  flt :: "string \<Rightarrow> real"

text \<open>
  The header part of \<open>_get_gl_entries_from_section\<close>: the account the section's rows are
  attributed to. The result \<open>Inr None\<close> is the early \<open>return\<close> of a section headed
  \<open>"Not Specified"\<close>.
\<close>

definition section_account :: "gl_env \<Rightarrow> col list option \<Rightarrow> string option \<Rightarrow> py_error + string option option" where
  "section_account env header account =
     (case header of
        None \<Rightarrow> Inr (Some account)
      | Some cols \<Rightarrow>
          (case cols of
             [] \<Rightarrow> Inl IndexError
           | c # _ \<Rightarrow>
               (case col_id c of
                  Some i \<Rightarrow>
                    (case account_name_by_id env i of
                       None \<Rightarrow> Inl IndexError
                     | Some name \<Rightarrow> Inr (Some (Some name)))
                | None \<Rightarrow>
                    (case col_value c of
                       None \<Rightarrow> Inr (Some account)
                     | Some v \<Rightarrow>
                         if v = [] then Inr (Some account)
                         else if v = ''Not Specified'' then Inr None
                         else
                           (case accounts_index env v of
                              None \<Rightarrow> Inl KeyError
                            | Some account_id \<Rightarrow>
                                (case account_name_by_id env account_id of
                                   None \<Rightarrow> Inl IndexError
                                 | Some name \<Rightarrow> Inr (Some (Some name))))))))"

text \<open>
  The dictionary built from a Data row: \<open>data[0]["value"]\<close>, \<open>data[1]["value"]\<close>,
  \<open>data[1].get("id")\<close>, \<open>flt(data[2]["value"])\<close>, \<open>flt(data[3]["value"])\<close>, evaluated in
  this order; a missing column raises IndexError, a missing \<open>"value"\<close> KeyError.
\<close>

definition col_at :: "col list \<Rightarrow> nat \<Rightarrow> py_error + col" where
  "col_at data i = (if i < length data then Inr (data ! i) else Inl IndexError)"

definition value_at :: "col list \<Rightarrow> nat \<Rightarrow> py_error + string" where
  "value_at data i =
     (case col_at data i of
        Inl e \<Rightarrow> Inl e
      | Inr c \<Rightarrow> (case col_value c of None \<Rightarrow> Inl KeyError | Some v \<Rightarrow> Inr v))"

definition gl_line_of :: "gl_env \<Rightarrow> string option \<Rightarrow> col list \<Rightarrow> py_error + gl_line" where
  "gl_line_of env account data =
     (case value_at data 0 of Inl e \<Rightarrow> Inl e | Inr d \<Rightarrow>
      (case value_at data 1 of Inl e \<Rightarrow> Inl e | Inr t \<Rightarrow>
       (case value_at data 2 of Inl e \<Rightarrow> Inl e | Inr c \<Rightarrow>
        (case value_at data 3 of Inl e \<Rightarrow> Inl e | Inr b \<Rightarrow>
           Inr \<lparr>l_account = account, l_date = d, l_type = t, l_id = col_id (data ! 1),
                l_credit = flt env c, l_debit = flt env b\<rparr>))))"

text \<open>
  \<open>_get_gl_entries_from_section\<close> and its loop over the section's rows. The loop
  collects the section's own Data rows in the local list \<open>entries\<close> and calls the
  function on each nested Section as it meets it; the call on a nested section writes
  to \<open>self.gl_entries\<close> before the loop goes on. After the loop the section's own
  entries are appended under its account. An exception leaves \<open>self.gl_entries\<close> as
  it is at that moment, so the result is the exception (if any) and the dictionary.
\<close>

fun get_gl_entries_from_section ::
      "gl_env \<Rightarrow> row \<Rightarrow> string option \<Rightarrow> gl_entries \<Rightarrow> py_error option \<times> gl_entries"
  and section_rows ::
      "gl_env \<Rightarrow> row list \<Rightarrow> string option \<Rightarrow> gl_line list \<Rightarrow> gl_entries
         \<Rightarrow> py_error option \<times> gl_line list \<times> gl_entries"
where
  "get_gl_entries_from_section env (Section header (Some rs)) account gl =
     (case section_account env header account of
        Inl e \<Rightarrow> (Some e, gl)
      | Inr None \<Rightarrow> (None, gl)
      | Inr (Some account') \<Rightarrow>
          (case section_rows env rs account' [] gl of
             (Some e, entries, gl') \<Rightarrow> (Some e, gl')
           | (None, entries, gl') \<Rightarrow> (None, setdefault_extend account' entries gl')))"
| "get_gl_entries_from_section env (Section header None) account gl =
     (case section_account env header account of
        Inl e \<Rightarrow> (Some e, gl)
      | Inr None \<Rightarrow> (None, gl)
      | Inr (Some account') \<Rightarrow> (Some KeyError, gl))"
| "get_gl_entries_from_section env (Data data) account gl = (Some KeyError, gl)"
| "get_gl_entries_from_section env OtherRow account gl = (Some KeyError, gl)"
| "section_rows env [] account entries gl = (None, entries, gl)"
| "section_rows env (Data data # rs) account entries gl =
     (case gl_line_of env account data of
        Inl e \<Rightarrow> (Some e, entries, gl)
      | Inr line \<Rightarrow> section_rows env rs account (entries @ [line]) gl)"
| "section_rows env (Section header rows # rs) account entries gl =
     (case get_gl_entries_from_section env (Section header rows) account gl of
        (Some e, gl') \<Rightarrow> (Some e, entries, gl')
      | (None, gl') \<Rightarrow> section_rows env rs account entries gl')"
| "section_rows env (OtherRow # rs) account entries gl = section_rows env rs account entries gl"

text \<open>
  The loop of \<open>_fetch_general_ledger\<close> over the top-level rows of the report: only
  Sections are walked, each with the default account \<open>None\<close>.
\<close>

fun report_sections :: "gl_env \<Rightarrow> row list \<Rightarrow> gl_entries \<Rightarrow> py_error option \<times> gl_entries" where
  "report_sections env [] gl = (None, gl)"
| "report_sections env (Section header rows # rs) gl =
     (case get_gl_entries_from_section env (Section header rows) None gl of
        (Some e, gl') \<Rightarrow> (Some e, gl')
      | (None, gl') \<Rightarrow> report_sections env rs gl')"
| "report_sections env (Data data # rs) gl = report_sections env rs gl"
| "report_sections env (OtherRow # rs) gl = report_sections env rs gl"

subsection \<open>Grouping by transaction type and id\<close>

record ledger_entry =
  le_id :: "string option"
  le_date :: string
  le_lines :: "gl_line list"

type_synonym general_ledger = "(string \<times> (string option \<times> ledger_entry) list) list"

text \<open>
  One step of the grouping loop: \<open>setdefault\<close> of the type's dictionary, a fresh entry
  for an id not seen before, and the line appended to the entry's \<open>lines\<close>.
\<close>

definition add_line :: "general_ledger \<Rightarrow> gl_line \<Rightarrow> general_ledger" where
  "add_line general_ledger line =
     (let type_dict = (case map_of general_ledger (l_type line) of None \<Rightarrow> [] | Some d \<Rightarrow> d);
          entry = (case map_of type_dict (l_id line) of
                     None \<Rightarrow> \<lparr>le_id = l_id line, le_date = l_date line, le_lines = []\<rparr>
                   | Some e \<Rightarrow> e)
      in dict_set (l_type line)
           (dict_set (l_id line) (entry\<lparr>le_lines := le_lines entry @ [line]\<rparr>) type_dict)
           general_ledger)"

text \<open>
  The flattening \<open>for account in self.gl_entries.values(): for line in account\<close> and the
  grouping of its lines.
\<close>

definition flattened :: "gl_entries \<Rightarrow> gl_line list" where
  "flattened gl = concat (map snd gl)"

definition group_lines :: "gl_line list \<Rightarrow> general_ledger" where
  "group_lines ls = foldl add_line [] ls"

text \<open>
  \<open>_fetch_general_ledger\<close> on the rows \<open>response.json()["Rows"]["Row"]\<close> of the report:
  the new \<open>self.gl_entries\<close>, and the new \<open>self.general_ledger\<close> unless an exception
  ended the walk (the handler logs it and the grouping is never reached).
\<close>

definition fetch_general_ledger :: "gl_env \<Rightarrow> row list \<Rightarrow> py_error option \<times> gl_entries \<times> general_ledger option" where
  "fetch_general_ledger env report =
     (case report_sections env report [] of
        (Some e, gl) \<Rightarrow> (Some e, gl, None)
      | (None, gl) \<Rightarrow> (None, gl, Some (group_lines (flattened gl))))"


subsection \<open>The order of the recursive walk, as the specification words it\<close>



subsection \<open>What the grouping yields, and two example reports\<close>






definition bank_line :: gl_line where
  "bank_line = \<lparr>l_account = Some ''Bank - QB'', l_date = ''2019-01-05'', l_type = ''Deposit'',
                l_id = Some ''7'', l_credit = 0, l_debit = 100\<rparr>"

definition checking_line :: gl_line where
  "checking_line = \<lparr>l_account = Some ''Checking - QB'', l_date = ''2019-01-05'', l_type = ''Deposit'',
                    l_id = Some ''7'', l_credit = 100, l_debit = 0\<rparr>"

section \<open>Fiscal Year Extender: \<open>_create_fiscal_years\<close>\<close>

subsection \<open>Calendar dates and \<open>add_years\<close>\<close>

text \<open>
  A \<open>datetime.date\<close>: year, month and day, compared lexicographically. \<open>valid_date\<close>
  says that the value is one Python can hold: the year is between \<open>MINYEAR = 1\<close> and
  \<open>MAXYEAR = 9999\<close>, and the month and the day exist in the calendar.
\<close>

record date =
  year :: int
  month :: nat
  day :: nat

definition leap_year :: "int \<Rightarrow> bool" where
  "leap_year y = (y mod 4 = 0 \<and> (y mod 100 \<noteq> 0 \<or> y mod 400 = 0))"

definition days_in_month :: "int \<Rightarrow> nat \<Rightarrow> nat" where
  "days_in_month y m =
     (if m = 2 then (if leap_year y then 29 else 28)
      else if m = 4 \<or> m = 6 \<or> m = 9 \<or> m = 11 then 30 else 31)"

definition valid_date :: "date \<Rightarrow> bool" where
  "valid_date d =
     (1 \<le> year d \<and> year d \<le> 9999 \<and> 1 \<le> month d \<and> month d \<le> 12
      \<and> 1 \<le> day d \<and> day d \<le> days_in_month (year d) (month d))"

definition date_less :: "date \<Rightarrow> date \<Rightarrow> bool" where
  "date_less a b =
     (year a < year b \<or> (year a = year b \<and>
        (month a < month b \<or> (month a = month b \<and> day a < day b))))"

definition date_le :: "date \<Rightarrow> date \<Rightarrow> bool" where
  "date_le a b = (\<not> date_less b a)"

text \<open>
  \<open>frappe.utils.data.add_years(date, years)\<close> is not part of the repository; it adds
  \<open>dateutil.relativedelta(years=years)\<close>. \<open>shift_years\<close> is the calendar arithmetic:
  the year is shifted, month and day are kept, and a day that the month does not have
  in the new year (29 February) becomes the month's last day. The new date is built
  with \<open>date.replace\<close>, which raises ValueError when the year leaves \<open>1..9999\<close>.
\<close>

definition shift_years :: "date \<Rightarrow> int \<Rightarrow> date" where
  "shift_years d years =
     \<lparr>year = year d + years, month = month d,
      day = min (day d) (days_in_month (year d + years) (month d))\<rparr>"

definition add_years :: "date \<Rightarrow> int \<Rightarrow> py_error + date" where
  "add_years d years =
     (if 1 \<le> year d + years \<and> year d + years \<le> 9999 then Inr (shift_years d years)
      else Inl ValueError)"

subsection \<open>Fiscal Year documents and the loop\<close>

text \<open>
  A Fiscal Year document: its two dates, and its \<open>year\<close> field, which for a created
  document is the start date's year, or "start year-end year" when the two differ; a
  document that was there before has some name.
\<close>

datatype fy_label = YearName string | SingleYear int | YearSpan int int

record fiscal_year =
  fy_year :: fy_label
  year_start_date :: date
  year_end_date :: date

text \<open>
  The document built in one round of the loop, from the oldest fiscal year so far: the
  start date is shifted first, then the end date; either \<open>add_years\<close> can raise.
\<close>

definition new_fiscal_year :: "fiscal_year \<Rightarrow> py_error + fiscal_year" where
  "new_fiscal_year oldest_fiscal_year =
     py_bind (add_years (year_start_date oldest_fiscal_year) (- 1)) (\<lambda>s.
     py_bind (add_years (year_end_date oldest_fiscal_year) (- 1)) (\<lambda>e.
       Inr \<lparr>fy_year = (if year s = year e then SingleYear (year s) else YearSpan (year s) (year e)),
            year_start_date = s, year_end_date = e\<rparr>))"

text \<open>
  The \<open>while\<close> loop. Its state is the oldest fiscal year so far and the Fiscal Year
  table, to which \<open>new_fiscal_year.save()\<close> adds the new document. (The ERP's own
  validation of a saved document is outside the repository; the table stores what it is
  given.) An exception of \<open>add_years\<close> ends the loop; the documents saved before it
  stay. The result is the exception, if any, and the table.
\<close>

function create_years :: "date \<Rightarrow> fiscal_year \<Rightarrow> fiscal_year list \<Rightarrow> py_error option \<times> fiscal_year list" where
  "create_years smallest_ledger_entry_date oldest_fiscal_year table =
     (if date_less smallest_ledger_entry_date (year_start_date oldest_fiscal_year)
      then (case new_fiscal_year oldest_fiscal_year of
              Inl e \<Rightarrow> (Some e, table)
            | Inr new \<Rightarrow> create_years smallest_ledger_entry_date new (table @ [new]))
      else (None, table))"
  by pat_completeness auto
termination
  by (relation "measure (\<lambda>(d, f, t). nat (year (year_start_date f) - year d + 1))")
     (auto simp: date_less_def new_fiscal_year_def add_years_def shift_years_def py_bind_def
           split: if_splits)

declare create_years.simps [simp del]

text \<open>
  \<open>frappe.get_all("Fiscal Year", ..., order_by="year_start_date")[0]\<close>: the fiscal year
  with the least start date (the first such in the table), IndexError when there is none.
\<close>

fun oldest_of :: "fiscal_year \<Rightarrow> fiscal_year list \<Rightarrow> fiscal_year" where
  "oldest_of best [] = best"
| "oldest_of best (f # fs) =
     oldest_of (if date_less (year_start_date f) (year_start_date best) then f else best) fs"

definition get_oldest_fiscal_year :: "fiscal_year list \<Rightarrow> py_error + fiscal_year" where
  "get_oldest_fiscal_year table = (case table of [] \<Rightarrow> Inl IndexError | f # fs \<Rightarrow> Inr (oldest_of f fs))"

text \<open>
  The dates \<open>entry["date"] for entry in chain(*self.gl_entries.values()) if entry["date"]\<close>
  are strings; \<open>min\<close> compares them as Python compares strings and raises ValueError on
  an empty sequence.
\<close>

definition ledger_dates :: "gl_entries \<Rightarrow> string list" where
  "ledger_dates gl = filter (\<lambda>d. d \<noteq> []) (map l_date (flattened gl))"

definition py_min :: "string list \<Rightarrow> py_error + string" where
  "py_min ds = (case ds of [] \<Rightarrow> Inl ValueError | d # ds' \<Rightarrow> Inr (foldl min d ds'))"

text \<open>
  \<open>_create_fiscal_years\<close>. \<open>self.gl_entries\<close> is \<open>None\<close> when the attribute was never set
  (\<open>_fetch_general_ledger\<close> failed before assigning it), which raises AttributeError.
  \<open>getdate\<close> (\<open>frappe.utils.getdate\<close>, outside the repository) parses the date string.
  Every exception is caught by the function's handler, which logs it; the result is the
  exception, if any, and the Fiscal Year table.
\<close>

definition create_fiscal_years ::
    "(string \<Rightarrow> py_error + date) \<Rightarrow> gl_entries option \<Rightarrow> fiscal_year list \<Rightarrow> py_error option \<times> fiscal_year list" where
  "create_fiscal_years getdate gl_entries table =
     (case gl_entries of
        None \<Rightarrow> (Some AttributeError, table)
      | Some gl \<Rightarrow>
          (case py_min (ledger_dates gl) of
             Inl e \<Rightarrow> (Some e, table)
           | Inr d \<Rightarrow>
               (case getdate d of
                  Inl e \<Rightarrow> (Some e, table)
                | Inr smallest_ledger_entry_date \<Rightarrow>
                    (case get_oldest_fiscal_year table of
                       Inl e \<Rightarrow> (Some e, table)
                     | Inr oldest_fiscal_year \<Rightarrow>
                         create_years smallest_ledger_entry_date oldest_fiscal_year table))))"

text \<open>Example dates and fiscal years.\<close>

definition mk_date :: "int \<Rightarrow> nat \<Rightarrow> nat \<Rightarrow> date" where
  "mk_date y m d = \<lparr>year = y, month = m, day = d\<rparr>"

definition mk_fiscal_year :: "string \<Rightarrow> date \<Rightarrow> date \<Rightarrow> fiscal_year" where
  "mk_fiscal_year n s e = \<lparr>fy_year = YearName n, year_start_date = s, year_end_date = e\<rparr>"

definition fy_2019 :: fiscal_year where
  "fy_2019 = mk_fiscal_year ''2019'' (mk_date 2019 1 1) (mk_date 2019 12 31)"


text \<open>
  \<open>feb29\<close>: the date is a 29 February. \<open>anchor\<close>: the date itself, or 28 February for
  a 29 February. \<open>regular_year\<close>: start and end are dates, the start is not after the
  end, and the year is not longer than one calendar year: the end date moved back one
  year lies before the start date, and before 28 February when the start is a
  29 February. \<open>created_years\<close>: the documents the loop adds to an empty table.
\<close>

definition feb29 :: "date \<Rightarrow> bool" where
  "feb29 d = (month d = 2 \<and> day d = 29)"

definition anchor :: "date \<Rightarrow> date" where
  "anchor d = (if feb29 d then d\<lparr>day := 28\<rparr> else d)"

definition regular_year :: "fiscal_year \<Rightarrow> bool" where
  "regular_year f =
     (valid_date (year_start_date f) \<and> valid_date (year_end_date f)
      \<and> date_le (year_start_date f) (year_end_date f)
      \<and> date_less (shift_years (year_end_date f) (- 1)) (anchor (year_start_date f)))"

definition created_years :: "date \<Rightarrow> fiscal_year \<Rightarrow> fiscal_year list" where
  "created_years d f = snd (create_years d f [])"

definition fy_feb29_short :: fiscal_year where
  "fy_feb29_short = mk_fiscal_year ''2020-2021'' (mk_date 2020 2 29) (mk_date 2021 2 27)"

definition fy_year_one :: fiscal_year where
  "fy_year_one = mk_fiscal_year ''0001'' (mk_date 1 3 1) (mk_date 1 12 31)"

definition fy_year_two :: fiscal_year where
  "fy_year_two = mk_fiscal_year ''0002'' (mk_date 2 1 1) (mk_date 2 12 31)"

definition undated_line :: gl_line where
  "undated_line = \<lparr>l_account = Some ''Bank - QB'', l_date = [], l_type = ''Deposit'',
                   l_id = Some ''7'', l_credit = 0, l_debit = 100\<rparr>"

definition ex_getdate :: "string \<Rightarrow> py_error + date" where
  "ex_getdate s = (if s = ''2016-05-10'' then Inr (mk_date 2016 5 10) else Inl ValueError)"

text \<open>
  \<open>in_year_one\<close>: the date moved to year 1, the earliest year a start date can be
  shifted to. \<open>steady_year\<close>: what the loop keeps true of the oldest fiscal year from
  one round to the next.
\<close>

definition in_year_one :: "date \<Rightarrow> date" where
  "in_year_one d = \<lparr>year = 1, month = month d, day = min (day d) (days_in_month 1 (month d))\<rparr>"

definition steady_year :: "fiscal_year \<Rightarrow> bool" where
  "steady_year f =
     (valid_date (year_start_date f) \<and> year (year_start_date f) \<le> year (year_end_date f)
      \<and> year (year_end_date f) \<le> 9999
      \<and> date_less (shift_years (year_end_date f) (- 1)) (anchor (year_start_date f)))"

section \<open>The ERP's documents and the migrator's state\<close>

text \<open>
  Documents are created with \<open>frappe.get_doc(dict).insert()\<close> and looked up with
  \<open>frappe.db.exists\<close> and \<open>frappe.get_all\<close>. Each doctype is a table, a list of
  documents in the order the database returns them; the fields are those the migrator
  writes or reads. The persistence layer is outside the repository: a table stores the
  document it is given (the ERP's own validation of a document is not modelled), and
  the fields it assigns on insert (the document's \<open>name\<close>, a Sales Invoice's
  \<open>debit_to\<close>) come from the functions of \<open>lib\<close>.
\<close>

record lib =
  encode_company_abbr :: "string \<Rightarrow> string \<Rightarrow> string"
  autoname :: "string \<Rightarrow> nat \<Rightarrow> string"
  debit_to_for :: "string \<Rightarrow> string"
  py_int :: "string \<Rightarrow> int option"
  py_str :: "nat \<Rightarrow> string"
  recursion_limit :: nat

record account_doc =
  acc_name :: string
  acc_quickbooks_id :: "string option"
  acc_company :: string
  acc_account_name :: string
  acc_root_type :: string
  acc_account_type :: "string option"
  acc_account_currency :: string
  acc_parent_account :: string
  acc_is_group :: bool

record party_doc =
  party_name :: string
  party_quickbooks_id :: "string option"
  party_company :: string
  party_display_name :: string
  party_currency :: "string option"
  party_receivable_account :: "string option"

record address_doc =
  addr_quickbooks_id :: "string option"
  addr_quickbooks_address_id :: "string option"
  addr_address_title :: string
  addr_address_type :: string
  addr_address_line1 :: string
  addr_city :: string
  addr_link_doctype :: string
  addr_link_name :: string

record item_doc =
  item_name :: string
  item_quickbooks_id :: "string option"
  item_company :: string
  item_stock_uom :: string
  item_default_warehouse :: string
  item_expense_account :: "string option"
  item_income_account :: "string option"

text \<open>A row of a Journal Entry's \<open>accounts\<close>: the keys the migrator sets are \<open>Some\<close>.\<close>

record account_line =
  al_account :: "string option"
  al_cost_center :: string
  debit_in_account_currency :: "real option"
  credit_in_account_currency :: "real option"
  al_party_type :: "string option"
  al_party :: "string option"
  al_reference_type :: "string option"
  al_reference_name :: "string option"

record journal_entry_doc =
  je_name :: string
  je_quickbooks_id :: string
  je_company :: string
  je_posting_date :: string
  je_accounts :: "account_line list"

record invoice_item =
  it_item_code :: "string option"
  it_item_name :: "string option"
  it_uom :: string
  it_description :: string
  it_qty :: real
  it_price_list_rate :: real
  it_cost_center :: string
  it_warehouse :: string
  it_item_tax_rate :: "(string \<times> real) list"
  it_expense_account :: "string option"
  it_income_account :: "string option"
  it_margin_type :: "string option"
  it_margin_rate_or_amount :: "int option"

record tax_row =
  tx_charge_type :: string
  tx_row_id :: "nat option"
  tx_account_head :: string
  tx_cost_center :: string
  tx_rate :: real

record payment_row =
  pm_mode_of_payment :: string
  pm_account :: string
  pm_amount :: real

record invoice_doc =
  inv_name :: string
  inv_quickbooks_id :: string
  inv_company :: string
  inv_currency :: string
  inv_conversion_rate :: real
  inv_posting_date :: string
  inv_due_date :: string
  inv_party :: string
  inv_party_account :: string
  inv_items :: "invoice_item list"
  inv_taxes :: "tax_row list"
  inv_is_return :: bool
  inv_is_pos :: bool
  inv_payments :: "payment_row list option"
  inv_apply_discount_on :: "string option"
  inv_discount_amount :: "real option"

text \<open>QuickBooks tax codes and tax rates, as \<open>_preprocess_tax_codes\<close> and \<open>_preprocess_tax_rates\<close> index them by id.\<close>

record tax_rate_detail =
  TaxRateRef :: string
  TaxTypeApplicable :: string
  TaxOrder :: nat
  TaxOnTaxOrder :: "nat option"

record tax_code =
  SalesTaxRateList :: "tax_rate_detail list option"
  PurchaseTaxRateList :: "tax_rate_detail list option"

text \<open>
  The migrator: the fields of \<open>self\<close> that the modelled methods use, the tables of the
  ERP, and the error log that \<open>_log_error\<close> writes to. \<open>general_ledger\<close> is \<open>None\<close>
  while the attribute has not been assigned.
\<close>

record migrator =
  company :: string
  default_cost_center :: string
  default_warehouse :: string
  default_shipping_account :: "string option"
  undeposited_funds_account :: "string option"
  tax_rates :: "(string \<times> real) list"
  tax_codes :: "(string \<times> tax_code) list"
  general_ledger :: "general_ledger option"
  account_table :: "account_doc list"
  customer_table :: "party_doc list"
  supplier_table :: "party_doc list"
  address_table :: "address_doc list"
  item_table :: "item_doc list"
  sales_invoice_table :: "invoice_doc list"
  purchase_invoice_table :: "invoice_doc list"
  journal_entry_table :: "journal_entry_doc list"
  error_log :: "py_error list"

definition log_error :: "py_error \<Rightarrow> migrator \<Rightarrow> migrator" where
  "log_error e s = s\<lparr>error_log := error_log s @ [e]\<rparr>"

text \<open>\<open>xs[0]\<close> on the list a query returns.\<close>

definition first :: "'a list \<Rightarrow> py_error + 'a" where
  "first xs = (case xs of [] \<Rightarrow> Inl IndexError | x # _ \<Rightarrow> Inr x)"

text \<open>\<open>_get_account_name_by_id\<close>\<close>

definition get_account_name_by_id :: "migrator \<Rightarrow> string \<Rightarrow> py_error + string" where
  "get_account_name_by_id s quickbooks_id =
     (case first (filter (\<lambda>a. acc_quickbooks_id a = Some quickbooks_id \<and> acc_company a = company s)
                    (account_table s)) of
        Inl e \<Rightarrow> Inl e
      | Inr a \<Rightarrow> Inr (acc_name a))"

section \<open>Journal entries\<close>

text \<open>\<open>frappe.db.exists({"doctype": "Journal Entry", "quickbooks_id": ..., "company": ...})\<close>\<close>

definition journal_entry_exists :: "migrator \<Rightarrow> string \<Rightarrow> bool" where
  "journal_entry_exists s quickbooks_id =
     (\<exists>d \<in> set (journal_entry_table s). je_quickbooks_id d = quickbooks_id \<and> je_company d = company s)"

text \<open>
  \<open>__save_journal_entry\<close>: the existence check, then \<open>insert\<close> and \<open>submit\<close> of the new
  document.
\<close>

definition save_journal_entry' :: "lib \<Rightarrow> string \<Rightarrow> account_line list \<Rightarrow> string \<Rightarrow> migrator \<Rightarrow> migrator" where
  "save_journal_entry' L quickbooks_id accounts posting_date s =
     (if \<not> journal_entry_exists s quickbooks_id then
        s\<lparr>journal_entry_table := journal_entry_table s @
            [\<lparr>je_name = autoname L ''Journal Entry'' (length (journal_entry_table s)),
              je_quickbooks_id = quickbooks_id, je_company = company s,
              je_posting_date = posting_date, je_accounts = accounts\<rparr>]\<rparr>
      else s)"

text \<open>A posting line with only the account and the cost center set.\<close>

definition account_line0 :: "string option \<Rightarrow> string \<Rightarrow> account_line" where
  "account_line0 a cc =
     \<lparr>al_account = a, al_cost_center = cc, debit_in_account_currency = None,
      credit_in_account_currency = None, al_party_type = None, al_party = None,
      al_reference_type = None, al_reference_name = None\<rparr>"

subsection \<open>Ledger-Entry Synthesizer\<close>

text \<open>
  The posting line \<open>__save_ledger_entry_as_je\<close> builds from a ledger line: the credit
  when \<open>line["credit"]\<close> is truthy (non-zero), else the debit.
\<close>

definition ledger_account_line :: "string \<Rightarrow> gl_line \<Rightarrow> account_line" where
  "ledger_account_line cc line =
     (if l_credit line \<noteq> 0
      then (account_line0 (l_account line) cc)\<lparr>credit_in_account_currency := Some (l_credit line)\<rparr>
      else (account_line0 (l_account line) cc)\<lparr>debit_in_account_currency := Some (l_debit line)\<rparr>)"

definition save_ledger_entry_as_je :: "lib \<Rightarrow> ledger_entry \<Rightarrow> string \<Rightarrow> migrator \<Rightarrow> migrator" where
  "save_ledger_entry_as_je L ledger_entry quickbooks_id s =
     save_journal_entry' L quickbooks_id
       (map (ledger_account_line (default_cost_center s)) (le_lines ledger_entry))
       (le_date ledger_entry) s"

text \<open>\<open>"{}".format(x)\<close> for an id that may be \<open>None\<close>.\<close>

definition format_id :: "string option \<Rightarrow> string" where
  "format_id i = (case i of None \<Rightarrow> ''None'' | Some v \<Rightarrow> v)"

definition save_advance_payment :: "lib \<Rightarrow> ledger_entry \<Rightarrow> migrator \<Rightarrow> migrator" where
  "save_advance_payment L advance_payment s =
     save_ledger_entry_as_je L advance_payment (''Advance Payment - '' @ format_id (le_id advance_payment)) s"

definition save_tax_payment :: "lib \<Rightarrow> ledger_entry \<Rightarrow> migrator \<Rightarrow> migrator" where
  "save_tax_payment L tax_payment s =
     save_ledger_entry_as_je L tax_payment (''Tax Payment - '' @ format_id (le_id tax_payment)) s"

definition save_inventory_qty_adjust :: "lib \<Rightarrow> ledger_entry \<Rightarrow> migrator \<Rightarrow> migrator" where
  "save_inventory_qty_adjust L inventory_qty_adjust s =
     save_ledger_entry_as_je L inventory_qty_adjust
       (''Inventory Qty Adjust - '' @ format_id (le_id inventory_qty_adjust)) s"

text \<open>The sums of the debit and of the credit amounts of posting lines, and of ledger lines.\<close>

definition amount :: "real option \<Rightarrow> real" where
  "amount a = (case a of None \<Rightarrow> 0 | Some x \<Rightarrow> x)"

definition total_debit :: "account_line list \<Rightarrow> real" where
  "total_debit accounts = sum_list (map (\<lambda>a. amount (debit_in_account_currency a)) accounts)"

definition total_credit :: "account_line list \<Rightarrow> real" where
  "total_credit accounts = sum_list (map (\<lambda>a. amount (credit_in_account_currency a)) accounts)"

text \<open>Exactly one of credit and debit is non-zero.\<close>

definition one_sided :: "gl_line \<Rightarrow> bool" where
  "one_sided line = ((l_credit line \<noteq> 0) \<noteq> (l_debit line \<noteq> 0))"

text \<open>An empty migrator for company "ACME", and an advance payment of two lines that balance.\<close>

definition migrator0 :: migrator where
  "migrator0 =
     \<lparr>company = ''ACME'', default_cost_center = ''Main - ACME'', default_warehouse = ''Stores - ACME'',
      default_shipping_account = None, undeposited_funds_account = None,
      tax_rates = [], tax_codes = [], general_ledger = None,
      account_table = [], customer_table = [], supplier_table = [], address_table = [],
      item_table = [], sales_invoice_table = [], purchase_invoice_table = [],
      journal_entry_table = [], error_log = []\<rparr>"

definition lib0 :: lib where
  "lib0 =
     \<lparr>encode_company_abbr = (\<lambda>n c. n @ '' - '' @ c),
      autoname = (\<lambda>doctype n. doctype @ '' '' @ replicate n CHR ''I''),
      debit_to_for = (\<lambda>c. ''Debtors - ACME''),
      py_int = (\<lambda>s. if s = ''10'' then Some 10 else if s = ''1'' then Some 1
                       else if s = ''2'' then Some 2 else None),
      py_str = (\<lambda>n. replicate n CHR ''I''),
      recursion_limit = 1000\<rparr>"

definition ex_advance_payment :: ledger_entry where
  "ex_advance_payment =
     \<lparr>le_id = Some ''7'', le_date = ''2019-01-05'', le_lines = [checking_line, bank_line]\<rparr>"

section \<open>QuickBooks transactions\<close>

text \<open>
  The JSON objects of the QuickBooks API, typed: a key the source tests for, or that
  only some transaction types carry, is an option (reading it when absent raises
  KeyError); every other key the modelled code reads is a field. A payload that lacks
  one of those is outside this model.
\<close>

record linked_txn =
  TxnType :: string
  TxnId :: string

record payment_line =
  pl_Amount :: real
  pl_LinkedTxn :: "linked_txn list"

record payment =
  pay_Id :: string
  pay_DepositToAccountRef :: "string option"
  pay_Line :: "payment_line list"
  pay_TotalAmt :: real
  pay_TxnDate :: string

section \<open>Payments: \<open>_save_payment\<close>\<close>

definition sales_invoice_exists :: "migrator \<Rightarrow> string \<Rightarrow> bool" where
  "sales_invoice_exists s quickbooks_id =
     (\<exists>d \<in> set (sales_invoice_table s). inv_quickbooks_id d = quickbooks_id \<and> inv_company d = company s)"

text \<open>
  The posting line of a payment line against the document the linked invoice was saved
  as (a credit of the line's amount to the party's account).
\<close>

definition reference_line :: "migrator \<Rightarrow> string \<Rightarrow> string \<Rightarrow> string option \<Rightarrow> string option \<Rightarrow> real \<Rightarrow> account_line" where
  "reference_line s reference_type reference_name party party_account amt =
     \<lparr>al_account = party_account, al_cost_center = default_cost_center s,
      debit_in_account_currency = None, credit_in_account_currency = Some amt,
      al_party_type = Some ''Customer'', al_party = party,
      al_reference_type = Some reference_type, al_reference_name = Some reference_name\<rparr>"

text \<open>
  The loop over \<open>payment["Line"]\<close>. An invoice may have been saved as a Sales Invoice
  or as a Journal Entry; both checks are made, in this order.
\<close>

fun payment_accounts :: "migrator \<Rightarrow> payment_line list \<Rightarrow> account_line list \<Rightarrow> py_error + account_line list" where
  "payment_accounts s [] accounts = Inr accounts"
| "payment_accounts s (line # ls) accounts =
     py_bind (first (pl_LinkedTxn line)) (\<lambda>linked_transaction.
       if TxnType linked_transaction = ''Invoice'' then
         (let si_quickbooks_id = ''Invoice - '' @ TxnId linked_transaction;
              accounts1 =
                (if sales_invoice_exists s si_quickbooks_id then
                   py_bind (first (filter (\<lambda>d. inv_quickbooks_id d = si_quickbooks_id \<and> inv_company d = company s)
                                     (sales_invoice_table s)))
                     (\<lambda>sales_invoice. Inr (accounts @
                        [reference_line s ''Sales Invoice'' (inv_name sales_invoice) (Some (inv_party sales_invoice))
                           (Some (inv_party_account sales_invoice)) (pl_Amount line)]))
                 else Inr accounts)
          in py_bind accounts1 (\<lambda>accounts1.
               py_bind
                 (if journal_entry_exists s si_quickbooks_id then
                    py_bind (first (filter (\<lambda>d. je_quickbooks_id d = si_quickbooks_id \<and> je_company d = company s)
                                      (journal_entry_table s)))
                      (\<lambda>journal_entry.
                         py_bind (first (filter (\<lambda>acc. al_party_type acc = Some ''Customer'') (je_accounts journal_entry)))
                           (\<lambda>customer_account_line. Inr (accounts1 @
                              [reference_line s ''Journal Entry'' (je_name journal_entry)
                                 (al_party customer_account_line)
                                 (al_account customer_account_line) (pl_Amount line)])))
                  else Inr accounts1)
                 (\<lambda>accounts2. payment_accounts s ls accounts2)))
       else payment_accounts s ls accounts)"

text \<open>
  \<open>_save_payment\<close>. A payment without \<open>"DepositToAccountRef"\<close> returns at once. Every
  exception after that is caught and logged.
\<close>

definition save_payment :: "lib \<Rightarrow> payment \<Rightarrow> migrator \<Rightarrow> migrator" where
  "save_payment L payment s =
     (case pay_DepositToAccountRef payment of
        None \<Rightarrow> s
      | Some deposit_ref \<Rightarrow>
          (case payment_accounts s (pay_Line payment) [] of
             Inl e \<Rightarrow> log_error e s
           | Inr accounts \<Rightarrow>
               (case get_account_name_by_id s deposit_ref of
                  Inl e \<Rightarrow> log_error e s
                | Inr deposit_account \<Rightarrow>
                    save_journal_entry' L (''Payment - '' @ pay_Id payment)
                      (accounts @
                         [(account_line0 (Some deposit_account) (default_cost_center s))
                            \<lparr>debit_in_account_currency := Some (pay_TotalAmt payment)\<rparr>])
                      (pay_TxnDate payment) s)))"

definition ex_payment :: payment where
  "ex_payment =
     \<lparr>pay_Id = ''12'', pay_DepositToAccountRef = None,
      pay_Line = [\<lparr>pl_Amount = 100, pl_LinkedTxn = [\<lparr>TxnType = ''Invoice'', TxnId = ''5''\<rparr>]\<rparr>],
      pay_TotalAmt = 100, pay_TxnDate = ''2019-01-05''\<rparr>"

section \<open>Invoices: \<open>_save_invoice\<close> and the sales invoice path\<close>

subsection \<open>The QuickBooks transaction\<close>

text \<open>
  An Invoice, CreditMemo, SalesReceipt, RefundReceipt, Bill or VendorCredit. The line
  details are read by the key that \<open>DetailType\<close> names; item lines of sales and of
  purchases carry the same keys.
\<close>

record item_detail =
  ItemRef_value :: string
  ItemRef_name :: string
  TaxCodeRef_value :: string
  Qty :: real
  UnitPrice :: real

record account_detail =
  AccountRef_value :: string
  AccountRef_name :: string
  ATaxCodeRef_value :: string

record txn_line =
  DetailType :: string
  Description :: "string option"
  Amount :: real
  SalesItemLineDetail :: "item_detail option"
  ItemBasedExpenseLineDetail :: "item_detail option"
  AccountBasedExpenseLineDetail :: "account_detail option"
  DiscountLineDetail_has_Amount :: "bool option"

record tax_line =
  TaxLine_TaxRateRef :: string
  TaxLine_TaxPercent :: real

record txn_tax_detail =
  TxnTaxCodeRef :: "string option"
  TaxLine :: "tax_line list option"

record qb_txn =
  txn_Id :: string
  LinkedTxn :: "linked_txn list option"
  CurrencyRef :: string
  ExchangeRate :: "real option"
  TxnDate :: string
  DueDate :: "string option"
  CustomerRef :: "string option"
  VendorRef :: "string option"
  APAccountRef :: "string option"
  Line :: "txn_line list"
  TxnTaxDetail :: "txn_tax_detail option"
  TotalAmt :: real
  DepositToAccountRef :: "string option"
  ApplyTaxAfterDiscount :: bool

subsection \<open>Taxes\<close>

text \<open>
  The loop of \<open>_get_item_taxes\<close> over one rate list: \<open>item_taxes[tax_head] = rate\<close> for
  every detail that is a tax on the amount.
\<close>

fun item_taxes_of :: "migrator \<Rightarrow> tax_rate_detail list \<Rightarrow> (string \<times> real) list \<Rightarrow> py_error + (string \<times> real) list" where
  "item_taxes_of s [] item_taxes = Inr item_taxes"
| "item_taxes_of s (tax_rate_detail # ds) item_taxes =
     (if TaxTypeApplicable tax_rate_detail = ''TaxOnAmount'' then
        py_bind (get_account_name_by_id s (''TaxRate - '' @ TaxRateRef tax_rate_detail)) (\<lambda>tax_head.
        py_bind (dict_item (tax_rates s) (TaxRateRef tax_rate_detail)) (\<lambda>rate_value.
          item_taxes_of s ds (dict_set tax_head rate_value item_taxes)))
      else item_taxes_of s ds item_taxes)"

definition rate_list_taxes :: "migrator \<Rightarrow> tax_rate_detail list option \<Rightarrow> (string \<times> real) list \<Rightarrow> py_error + (string \<times> real) list" where
  "rate_list_taxes s rate_list item_taxes =
     (case rate_list of None \<Rightarrow> Inr item_taxes | Some ds \<Rightarrow> item_taxes_of s ds item_taxes)"

definition get_item_taxes :: "migrator \<Rightarrow> string \<Rightarrow> py_error + (string \<times> real) list" where
  "get_item_taxes s tax_code =
     (if tax_code \<noteq> ''NON'' then
        py_bind (dict_item (tax_codes s) tax_code) (\<lambda>tc.
        py_bind (rate_list_taxes s (SalesTaxRateList tc) []) (\<lambda>item_taxes.
          rate_list_taxes s (PurchaseTaxRateList tc) item_taxes))
      else Inr [])"

text \<open>
  The rate lists of all tax codes in the order \<open>_get_tax_type\<close> and
  \<open>_get_parent_tax_rate\<close> visit them: per tax code the sales list, then the purchase
  list, each if present.
\<close>

definition rate_lists :: "migrator \<Rightarrow> tax_rate_detail list list" where
  "rate_lists s =
     concat (map (\<lambda>(i, tc).
        (case SalesTaxRateList tc of None \<Rightarrow> [] | Some ds \<Rightarrow> [ds]) @
        (case PurchaseTaxRateList tc of None \<Rightarrow> [] | Some ds \<Rightarrow> [ds])) (tax_codes s))"

text \<open>\<open>_get_tax_type\<close>: the type of the first detail of that rate, \<open>None\<close> if there is none.\<close>

definition get_tax_type :: "migrator \<Rightarrow> string \<Rightarrow> string option" where
  "get_tax_type s tax_rate =
     (case filter (\<lambda>d. TaxRateRef d = tax_rate) (concat (rate_lists s)) of
        [] \<Rightarrow> None
      | d # _ \<Rightarrow> Some (TaxTypeApplicable d))"

text \<open>
  \<open>_get_parent_tax_rate\<close>: within each rate list, \<open>parent\<close> becomes the
  \<open>TaxOnTaxOrder\<close> of every detail of the rate (a detail without that key raises
  KeyError); after the list, a truthy \<open>parent\<close> is looked up among the list's
  \<open>TaxOrder\<close>s. \<open>parent\<close> is kept from one list to the next.
\<close>

fun scan_parent :: "string \<Rightarrow> tax_rate_detail list \<Rightarrow> nat option \<Rightarrow> py_error + nat option" where
  "scan_parent tax_rate [] parent = Inr parent"
| "scan_parent tax_rate (d # ds) parent =
     (if TaxRateRef d = tax_rate then
        py_bind (key (TaxOnTaxOrder d)) (\<lambda>p. scan_parent tax_rate ds (Some p))
      else scan_parent tax_rate ds parent)"

fun parent_tax_rate_in :: "string \<Rightarrow> tax_rate_detail list list \<Rightarrow> nat option \<Rightarrow> py_error + string option" where
  "parent_tax_rate_in tax_rate [] parent = Inr None"
| "parent_tax_rate_in tax_rate (ds # rest) parent =
     py_bind (scan_parent tax_rate ds parent) (\<lambda>parent'.
       case parent' of
         None \<Rightarrow> parent_tax_rate_in tax_rate rest parent'
       | Some p \<Rightarrow>
           if p \<noteq> 0 then
             (case filter (\<lambda>d. TaxOrder d = p) ds of
                d # _ \<Rightarrow> Inr (Some (TaxRateRef d))
              | [] \<Rightarrow> parent_tax_rate_in tax_rate rest parent')
           else parent_tax_rate_in tax_rate rest parent')"

definition get_parent_tax_rate :: "migrator \<Rightarrow> string \<Rightarrow> py_error + string option" where
  "get_parent_tax_rate s tax_rate = parent_tax_rate_in tax_rate (rate_lists s) None"

text \<open>\<open>_get_parent_row_id\<close>: the 1-based row of the first tax with the parent's account.\<close>

fun row_of :: "string \<Rightarrow> tax_row list \<Rightarrow> nat \<Rightarrow> nat option" where
  "row_of tax_account [] n = None"
| "row_of tax_account (t # ts) n =
     (if tx_account_head t = tax_account then Some (n + 1) else row_of tax_account ts (n + 1))"

definition get_parent_row_id :: "migrator \<Rightarrow> string option \<Rightarrow> tax_row list \<Rightarrow> py_error + nat option" where
  "get_parent_row_id s tax_rate taxes =
     py_bind (get_account_name_by_id s (''TaxRate - '' @ format_id tax_rate)) (\<lambda>tax_account.
       Inr (row_of tax_account taxes 0))"

fun taxes_of :: "migrator \<Rightarrow> tax_line list \<Rightarrow> tax_row list \<Rightarrow> py_error + tax_row list" where
  "taxes_of s [] taxes = Inr taxes"
| "taxes_of s (line # ls) taxes =
     py_bind (get_account_name_by_id s (''TaxRate - '' @ TaxLine_TaxRateRef line)) (\<lambda>account_head.
       if get_tax_type s (TaxLine_TaxRateRef line) = Some ''TaxOnAmount'' then
         taxes_of s ls (taxes @
           [\<lparr>tx_charge_type = ''On Net Total'', tx_row_id = None, tx_account_head = account_head,
             tx_cost_center = default_cost_center s, tx_rate = 0\<rparr>])
       else
         py_bind (get_parent_tax_rate s (TaxLine_TaxRateRef line)) (\<lambda>parent_tax_rate.
         py_bind (get_parent_row_id s parent_tax_rate taxes) (\<lambda>parent_row_id.
           taxes_of s ls (taxes @
             [\<lparr>tx_charge_type = ''On Previous Row Amount'', tx_row_id = parent_row_id,
               tx_account_head = account_head, tx_cost_center = default_cost_center s,
               tx_rate = TaxLine_TaxPercent line\<rparr>]))))"

definition get_taxes :: "migrator \<Rightarrow> qb_txn \<Rightarrow> py_error + tax_row list" where
  "get_taxes s entry =
     (case TxnTaxDetail entry of
        None \<Rightarrow> Inr []
      | Some detail \<Rightarrow> (case TaxLine detail of None \<Rightarrow> Inr [] | Some ls \<Rightarrow> taxes_of s ls []))"

subsection \<open>Item lines\<close>

text \<open>
  The tax code of an item line: the line's own unless it is \<open>"TAX"\<close>, then the
  transaction's \<open>TxnTaxCodeRef\<close> if it has one, else \<open>"NON"\<close>.
  (\<open>invoice["TxnTaxDetail"]\<close> is read without a test.)
\<close>

definition line_tax_code :: "qb_txn \<Rightarrow> string \<Rightarrow> py_error + string" where
  "line_tax_code invoice ref =
     (if ref \<noteq> ''TAX'' then Inr ref
      else py_bind (key (TxnTaxDetail invoice)) (\<lambda>detail.
             Inr (case TxnTaxCodeRef detail of Some c \<Rightarrow> c | None \<Rightarrow> ''NON'')))"

definition negate_qty :: "bool \<Rightarrow> invoice_item \<Rightarrow> invoice_item" where
  "negate_qty is_return item = (if is_return then item\<lparr>it_qty := it_qty item * (- 1)\<rparr> else item)"

text \<open>The item a \<open>SalesItemLineDetail\<close> line appends, already with \<open>items[-1]["qty"] *= -1\<close> for a return.\<close>

definition si_item_of :: "migrator \<Rightarrow> qb_txn \<Rightarrow> bool \<Rightarrow> txn_line \<Rightarrow> py_error + invoice_item" where
  "si_item_of s invoice is_return line =
     py_bind (key (SalesItemLineDetail line)) (\<lambda>d.
     py_bind (line_tax_code invoice (TaxCodeRef_value d)) (\<lambda>tax_code.
       if ItemRef_value d \<noteq> ''SHIPPING_ITEM_ID'' then
         py_bind (first (filter (\<lambda>i. item_quickbooks_id i = Some (ItemRef_value d) \<and> item_company i = company s)
                           (item_table s))) (\<lambda>item.
         py_bind (get_item_taxes s tax_code) (\<lambda>item_taxes.
           Inr (negate_qty is_return
             \<lparr>it_item_code = Some (item_name item), it_item_name = None, it_uom = item_stock_uom item,
              it_description = (case Description line of Some t \<Rightarrow> t | None \<Rightarrow> ItemRef_name d),
              it_qty = Qty d, it_price_list_rate = UnitPrice d,
              it_cost_center = default_cost_center s, it_warehouse = default_warehouse s,
              it_item_tax_rate = item_taxes, it_expense_account = None, it_income_account = None,
              it_margin_type = None, it_margin_rate_or_amount = None\<rparr>)))
       else
         py_bind (get_account_name_by_id s (''TaxRate - '' @ TaxCodeRef_value d)) (\<lambda>expense_account.
         py_bind (get_item_taxes s tax_code) (\<lambda>item_taxes.
           Inr (negate_qty is_return
             \<lparr>it_item_code = None, it_item_name = Some ''Shipping'', it_uom = ''Unit'',
              it_description = ''Shipping'', it_qty = 1, it_price_list_rate = Amount line,
              it_cost_center = default_cost_center s, it_warehouse = default_warehouse s,
              it_item_tax_rate = item_taxes, it_expense_account = Some expense_account,
              it_income_account = default_shipping_account s,
              it_margin_type = None, it_margin_rate_or_amount = None\<rparr>)))))"

text \<open>
  The loop of \<open>_get_si_items\<close>. A \<open>"DescriptionOnly"\<close> line sets the margin of the last
  item (\<open>items[-1]\<close> raises IndexError when there is none; \<open>int\<close> of the text before
  \<open>"%"\<close> raises ValueError when it is no number); lines of other types are passed over.
\<close>

fun si_items :: "lib \<Rightarrow> migrator \<Rightarrow> qb_txn \<Rightarrow> bool \<Rightarrow> txn_line list \<Rightarrow> invoice_item list \<Rightarrow> py_error + invoice_item list" where
  "si_items L s invoice is_return [] items = Inr items"
| "si_items L s invoice is_return (line # ls) items =
     (if DetailType line = ''SalesItemLineDetail'' then
        py_bind (si_item_of s invoice is_return line) (\<lambda>item.
          si_items L s invoice is_return ls (items @ [item]))
      else if DetailType line = ''DescriptionOnly'' then
        (if items = [] then Inl IndexError
         else
           py_bind (key (Description line)) (\<lambda>text.
             case py_int L (takeWhile (\<lambda>c. c \<noteq> CHR ''%'') text) of
               None \<Rightarrow> Inl ValueError
             | Some n \<Rightarrow>
                 si_items L s invoice is_return ls
                   (butlast items @
                      [(last items)\<lparr>it_margin_type := Some ''Percentage'',
                                     it_margin_rate_or_amount := Some n\<rparr>])))
      else si_items L s invoice is_return ls items)"

definition get_si_items :: "lib \<Rightarrow> migrator \<Rightarrow> qb_txn \<Rightarrow> bool \<Rightarrow> py_error + invoice_item list" where
  "get_si_items L s invoice is_return = si_items L s invoice is_return (Line invoice) []"

text \<open>\<open>_get_invoice_payments\<close>: a list for a POS invoice, \<open>None\<close> otherwise.\<close>

definition get_invoice_payments :: "migrator \<Rightarrow> qb_txn \<Rightarrow> bool \<Rightarrow> bool \<Rightarrow> py_error + payment_row list option" where
  "get_invoice_payments s invoice is_return is_pos =
     (if is_pos then
        py_bind (key (DepositToAccountRef invoice)) (\<lambda>ref.
        py_bind (get_account_name_by_id s ref) (\<lambda>a.
          Inr (Some [\<lparr>pm_mode_of_payment = ''Cash'', pm_account = a,
                      pm_amount = (if is_return then - TotalAmt invoice else TotalAmt invoice)\<rparr>])))
      else Inr None)"

text \<open>\<open>_get_discount\<close>: the first discount line that has an amount.\<close>

fun get_discount :: "txn_line list \<Rightarrow> py_error + txn_line option" where
  "get_discount [] = Inr None"
| "get_discount (line # ls) =
     (if DetailType line = ''DiscountLineDetail'' then
        py_bind (key (DiscountLineDetail_has_Amount line)) (\<lambda>has_amount.
          if has_amount then Inr (Some line) else get_discount ls)
      else get_discount ls)"

subsection \<open>\<open>_save_sales_invoice\<close>\<close>

text \<open>
  The document \<open>_save_sales_invoice\<close> builds, before the ERP assigns its name and its
  receivable account.
\<close>

definition sales_invoice_dict ::
    "lib \<Rightarrow> migrator \<Rightarrow> qb_txn \<Rightarrow> string \<Rightarrow> bool \<Rightarrow> bool \<Rightarrow> py_error + invoice_doc" where
  "sales_invoice_dict L s invoice quickbooks_id is_return is_pos =
     py_bind (key (CustomerRef invoice)) (\<lambda>customer_ref.
     py_bind (first (filter (\<lambda>c. party_quickbooks_id c = Some customer_ref \<and> party_company c = company s)
                       (customer_table s))) (\<lambda>customer.
     py_bind (get_si_items L s invoice is_return) (\<lambda>items.
     py_bind (get_taxes s invoice) (\<lambda>taxes.
     py_bind (get_invoice_payments s invoice is_return is_pos) (\<lambda>payments.
     py_bind (get_discount (Line invoice)) (\<lambda>discount.
       Inr \<lparr>inv_name = [], inv_quickbooks_id = quickbooks_id, inv_company = company s,
            inv_currency = CurrencyRef invoice,
            inv_conversion_rate = (case ExchangeRate invoice of Some r \<Rightarrow> r | None \<Rightarrow> 1),
            inv_posting_date = TxnDate invoice,
            inv_due_date = (case DueDate invoice of Some d \<Rightarrow> d | None \<Rightarrow> TxnDate invoice),
            inv_party = party_name customer, inv_party_account = [],
            inv_items = items, inv_taxes = taxes,
            inv_is_return = is_return, inv_is_pos = is_pos, inv_payments = payments,
            inv_apply_discount_on =
              (case discount of
                 None \<Rightarrow> None
               | Some line \<Rightarrow> Some (if ApplyTaxAfterDiscount invoice then ''Net Total'' else ''Grand Total'')),
            inv_discount_amount = (case discount of None \<Rightarrow> None | Some line \<Rightarrow> Some (Amount line))\<rparr>))))))"

text \<open>
  \<open>_save_sales_invoice\<close>: the existence check, the document, \<open>insert\<close> and \<open>submit\<close>.
  An exception while the document is built reaches the handler before \<open>invoice_doc\<close>
  is assigned; the handler's own arguments then raise UnboundLocalError, which leaves
  the method. The result is that exception, if any, and the state.
\<close>

definition save_sales_invoice ::
    "lib \<Rightarrow> qb_txn \<Rightarrow> string \<Rightarrow> bool \<Rightarrow> bool \<Rightarrow> migrator \<Rightarrow> py_error option \<times> migrator" where
  "save_sales_invoice L invoice quickbooks_id is_return is_pos s =
     (if \<not> sales_invoice_exists s quickbooks_id then
        (case sales_invoice_dict L s invoice quickbooks_id is_return is_pos of
           Inl e \<Rightarrow> (Some UnboundLocalError, s)
         | Inr invoice_dict \<Rightarrow>
             (None, s\<lparr>sales_invoice_table := sales_invoice_table s @
                [invoice_dict\<lparr>inv_name := autoname L ''Sales Invoice'' (length (sales_invoice_table s)),
                              inv_party_account := debit_to_for L (inv_party invoice_dict)\<rparr>]\<rparr>))
      else (None, s))"

subsection \<open>\<open>_save_invoice_as_journal_entry\<close>\<close>

text \<open>
  The posting line for a ledger line of the invoice: the debit if non-zero, else the
  credit if non-zero; on a Receivable account the customer is set as the party.
  \<open>frappe.db.get_value("Account", name, "account_type")\<close> reads the account of that name.
\<close>

definition account_type_of :: "migrator \<Rightarrow> string option \<Rightarrow> string option" where
  "account_type_of s a =
     (case a of
        None \<Rightarrow> None
      | Some n \<Rightarrow> (case filter (\<lambda>d. acc_name d = n) (account_table s) of
                     [] \<Rightarrow> None | d # _ \<Rightarrow> acc_account_type d))"

definition invoice_account_line :: "migrator \<Rightarrow> qb_txn \<Rightarrow> gl_line \<Rightarrow> py_error + account_line" where
  "invoice_account_line s invoice line =
     (let account_line =
            (if l_debit line \<noteq> 0
             then (account_line0 (l_account line) (default_cost_center s))
                    \<lparr>debit_in_account_currency := Some (l_debit line)\<rparr>
             else if l_credit line \<noteq> 0
             then (account_line0 (l_account line) (default_cost_center s))
                    \<lparr>credit_in_account_currency := Some (l_credit line)\<rparr>
             else account_line0 (l_account line) (default_cost_center s))
      in if account_type_of s (l_account line) = Some ''Receivable'' then
           py_bind (key (CustomerRef invoice)) (\<lambda>customer_ref.
           py_bind (first (filter (\<lambda>c. party_quickbooks_id c = Some customer_ref \<and> party_company c = company s)
                             (customer_table s))) (\<lambda>customer.
             Inr (account_line\<lparr>al_party_type := Some ''Customer'', al_party := Some (party_name customer)\<rparr>)))
         else Inr account_line)"

fun invoice_account_lines :: "migrator \<Rightarrow> qb_txn \<Rightarrow> gl_line list \<Rightarrow> account_line list \<Rightarrow> py_error + account_line list" where
  "invoice_account_lines s invoice [] accounts = Inr accounts"
| "invoice_account_lines s invoice (line # ls) accounts =
     py_bind (invoice_account_line s invoice line) (\<lambda>account_line.
       invoice_account_lines s invoice ls (accounts @ [account_line]))"

text \<open>
  The lines \<open>self.general_ledger["Invoice"][invoice["Id"]]["lines"]\<close>: AttributeError
  without a general ledger, KeyError without the type or the id.
\<close>

definition invoice_ledger_lines :: "migrator \<Rightarrow> qb_txn \<Rightarrow> py_error + gl_line list" where
  "invoice_ledger_lines s invoice =
     (case general_ledger s of
        None \<Rightarrow> Inl AttributeError
      | Some g \<Rightarrow>
          py_bind (dict_item g ''Invoice'') (\<lambda>type_dict.
          py_bind (dict_item type_dict (Some (txn_Id invoice))) (\<lambda>entry. Inr (le_lines entry))))"

definition save_invoice_as_journal_entry :: "lib \<Rightarrow> qb_txn \<Rightarrow> string \<Rightarrow> migrator \<Rightarrow> migrator" where
  "save_invoice_as_journal_entry L invoice quickbooks_id s =
     (case py_bind (invoice_ledger_lines s invoice) (\<lambda>ls. invoice_account_lines s invoice ls []) of
        Inl e \<Rightarrow> log_error e s
      | Inr accounts \<Rightarrow> save_journal_entry' L quickbooks_id accounts (TxnDate invoice) s)"

subsection \<open>\<open>_save_invoice\<close> and the three sibling entities\<close>

definition save_invoice :: "lib \<Rightarrow> qb_txn \<Rightarrow> migrator \<Rightarrow> py_error option \<times> migrator" where
  "save_invoice L invoice s =
     (let quickbooks_id = ''Invoice - '' @ txn_Id invoice
      in case LinkedTxn invoice of
           None \<Rightarrow> (Some KeyError, s)
         | Some linked_txns \<Rightarrow>
             if \<exists>linked \<in> set linked_txns.
                  TxnType linked = ''StatementCharge'' \<or> TxnType linked = ''ReimburseCharge''
             then (None, save_invoice_as_journal_entry L invoice quickbooks_id s)
             else save_sales_invoice L invoice quickbooks_id False False s)"


definition save_sales_receipt :: "lib \<Rightarrow> qb_txn \<Rightarrow> migrator \<Rightarrow> py_error option \<times> migrator" where
  "save_sales_receipt L sales_receipt s =
     save_sales_invoice L sales_receipt (''Sales Receipt - '' @ txn_Id sales_receipt) False True s"


subsection \<open>Notions for the routing of invoices, and an example\<close>



text \<open>
  A migrator that holds customer 1 and item 3, and a transaction of customer 1 with two
  units of item 3 at 50 and a shipping line.
\<close>

definition migrator1 :: migrator where
  "migrator1 = migrator0
     \<lparr>customer_table :=
        [\<lparr>party_name = ''Amy - ACME'', party_quickbooks_id = Some ''1'', party_company = ''ACME'',
          party_display_name = ''Amy'', party_currency = Some ''USD'', party_receivable_account = None\<rparr>],
      item_table :=
        [\<lparr>item_name = ''Rock - ACME'', item_quickbooks_id = Some ''3'', item_company = ''ACME'',
          item_stock_uom = ''Unit'', item_default_warehouse = ''Stores - ACME'',
          item_expense_account = None, item_income_account = None\<rparr>],
      general_ledger := Some [(''Invoice'', [(Some ''5'',
          \<lparr>le_id = Some ''5'', le_date = ''2019-01-05'', le_lines = [checking_line, bank_line]\<rparr>)])]\<rparr>"

definition ex_line :: txn_line where
  "ex_line =
     \<lparr>DetailType = ''SalesItemLineDetail'', Description = Some ''Rocks'', Amount = 100,
      SalesItemLineDetail = Some \<lparr>ItemRef_value = ''3'', ItemRef_name = ''Rock'', TaxCodeRef_value = ''NON'',
                                  Qty = 2, UnitPrice = 50\<rparr>,
      ItemBasedExpenseLineDetail = None, AccountBasedExpenseLineDetail = None,
      DiscountLineDetail_has_Amount = None\<rparr>"

definition ex_invoice :: qb_txn where
  "ex_invoice =
     \<lparr>txn_Id = ''5'', LinkedTxn = Some [], CurrencyRef = ''USD'', ExchangeRate = None,
      TxnDate = ''2019-01-05'', DueDate = None, CustomerRef = Some ''1'', VendorRef = None,
      APAccountRef = None, Line = [ex_line], TxnTaxDetail = None, TotalAmt = 100,
      DepositToAccountRef = None, ApplyTaxAfterDiscount = False\<rparr>"


definition ex_charge_invoice :: qb_txn where
  "ex_charge_invoice = ex_invoice\<lparr>LinkedTxn := Some [\<lparr>TxnType = ''StatementCharge'', TxnId = ''9''\<rparr>]\<rparr>"

text \<open>
  A migrator whose ledger holds invoice 5 as a debit of 100 on the Receivable account
  Debtors and a credit of 100 on Sales.
\<close>

definition debtors_line :: gl_line where
  "debtors_line = \<lparr>l_account = Some ''Debtors - QB'', l_date = ''2019-01-05'', l_type = ''Invoice'',
                   l_id = Some ''5'', l_credit = 0, l_debit = 100\<rparr>"

definition sales_line :: gl_line where
  "sales_line = \<lparr>l_account = Some ''Sales - QB'', l_date = ''2019-01-05'', l_type = ''Invoice'',
                 l_id = Some ''5'', l_credit = 100, l_debit = 0\<rparr>"

definition migrator2 :: migrator where
  "migrator2 = migrator1
     \<lparr>account_table :=
        [\<lparr>acc_name = ''Debtors - QB'', acc_quickbooks_id = Some ''84'', acc_company = ''ACME'',
          acc_account_name = ''Debtors'', acc_root_type = ''Asset'',
          acc_account_type = Some ''Receivable'', acc_account_currency = ''USD'',
          acc_parent_account = ''Asset - QB'', acc_is_group = False\<rparr>],
      general_ledger := Some [(''Invoice'', [(Some ''5'',
          \<lparr>le_id = Some ''5'', le_date = ''2019-01-05'', le_lines = [debtors_line, sales_line]\<rparr>)])]\<rparr>"

section \<open>Accounts, parties, items and purchase invoices\<close>

subsection \<open>Accounts: \<open>_preprocess_accounts\<close>, \<open>_save_account\<close>\<close>

record qb_account =
  acct_Id :: string
  acct_Name :: string
  SubAccount :: bool
  ParentRef :: "string option"
  AccountType :: string
  AccountSubType :: "string option"
  acct_CurrencyRef :: string
  is_group :: bool

text \<open>
  \<open>any(acc["SubAccount"] and acc["ParentRef"]["value"] == account["Id"] for acc in accounts)\<close>
\<close>

fun any_child :: "qb_account list \<Rightarrow> string \<Rightarrow> py_error + bool" where
  "any_child [] i = Inr False"
| "any_child (acc # accs) i =
     (if SubAccount acc then
        py_bind (key (ParentRef acc)) (\<lambda>p. if p = i then Inr True else any_child accs i)
      else any_child accs i)"

fun mark_groups :: "qb_account list \<Rightarrow> qb_account list \<Rightarrow> py_error + qb_account list" where
  "mark_groups accounts [] = Inr []"
| "mark_groups accounts (account # rest) =
     py_bind (any_child accounts (acct_Id account)) (\<lambda>g.
     py_bind (mark_groups accounts rest) (\<lambda>rest'. Inr (account\<lparr>is_group := g\<rparr> # rest')))"

text \<open>
  \<open>_preprocess_accounts\<close>: the group flags, then \<open>sorted\<close> by \<open>int(account["Id"])\<close>
  (a stable sort; ValueError for an id that is no number).
\<close>

definition preprocess_accounts :: "lib \<Rightarrow> qb_account list \<Rightarrow> py_error + qb_account list" where
  "preprocess_accounts L accounts =
     py_bind (mark_groups accounts accounts) (\<lambda>marked.
       if \<exists>a \<in> set marked. py_int L (acct_Id a) = None then Inl ValueError
       else Inr (sort_key (\<lambda>a. case py_int L (acct_Id a) of Some n \<Rightarrow> n | None \<Rightarrow> 0) marked))"




definition account_name_exists :: "migrator \<Rightarrow> string \<Rightarrow> bool" where
  "account_name_exists s n =
     (\<exists>d \<in> set (account_table s). acc_name d = n \<and> acc_company d = company s)"

text \<open>
  \<open>_get_unique_account_name\<close> calls itself with the next number while the encoded name
  is taken. The first argument is the number of stack frames Python still allows;
  with none left the call raises RecursionError.
\<close>

fun get_unique_account_name :: "nat \<Rightarrow> lib \<Rightarrow> migrator \<Rightarrow> string \<Rightarrow> nat \<Rightarrow> py_error + string" where
  "get_unique_account_name 0 L s quickbooks_name number = Inl RecursionError"
| "get_unique_account_name (Suc depth) L s quickbooks_name number =
     (let quickbooks_account_name =
            (if number \<noteq> 0 then quickbooks_name @ '' - '' @ py_str L number @ '' - QB''
             else quickbooks_name @ '' - QB'');
          company_encoded_account_name = encode_company_abbr L quickbooks_account_name (company s)
      in if account_name_exists s company_encoded_account_name
         then get_unique_account_name depth L s quickbooks_name (number + 1)
         else Inr quickbooks_account_name)"

definition insert_account :: "lib \<Rightarrow> account_doc \<Rightarrow> migrator \<Rightarrow> migrator" where
  "insert_account L d s =
     s\<lparr>account_table := account_table s @ [d\<lparr>acc_name := autoname L ''Account'' (length (account_table s))\<rparr>]\<rparr>"






subsection \<open>Tax rates: \<open>_save_tax_rate\<close>\<close>



subsection \<open>Addresses, customers and suppliers\<close>

record qb_address =
  address_Id :: string
  Line1 :: "string option"
  City :: "string option"

record qb_party =
  party_Id :: string
  DisplayName :: string
  party_CurrencyRef :: "string option"
  BillAddr :: "qb_address option"
  ShipAddr :: "qb_address option"

text \<open>
  \<open>_create_address\<close>: the check looks for an Address whose \<open>quickbooks_id\<close> is the
  address id; the document that is inserted carries the id as
  \<open>quickbooks_address_id\<close>.
\<close>

definition address_exists :: "migrator \<Rightarrow> string \<Rightarrow> bool" where
  "address_exists s quickbooks_id =
     (\<exists>d \<in> set (address_table s). addr_quickbooks_id d = Some quickbooks_id)"

definition create_address :: "string \<Rightarrow> string \<Rightarrow> qb_address \<Rightarrow> string \<Rightarrow> migrator \<Rightarrow> migrator" where
  "create_address entity_name doctype address address_type s =
     (if \<not> address_exists s (address_Id address) then
        (case py_bind (key (Line1 address)) (\<lambda>line1.
              py_bind (key (City address)) (\<lambda>city.
                Inr \<lparr>addr_quickbooks_id = None, addr_quickbooks_address_id = Some (address_Id address),
                     addr_address_title = entity_name, addr_address_type = address_type,
                     addr_address_line1 = line1, addr_city = city,
                     addr_link_doctype = doctype, addr_link_name = entity_name\<rparr>)) of
           Inl e \<Rightarrow> log_error e s
         | Inr d \<Rightarrow> s\<lparr>address_table := address_table s @ [d]\<rparr>)
      else s)"

definition create_addresses :: "string \<Rightarrow> string \<Rightarrow> qb_party \<Rightarrow> migrator \<Rightarrow> migrator" where
  "create_addresses entity_name doctype party s =
     (let s1 = (case BillAddr party of
                  None \<Rightarrow> s
                | Some a \<Rightarrow> create_address entity_name doctype a ''Billing'' s)
      in case ShipAddr party of
           None \<Rightarrow> s1
         | Some a \<Rightarrow> create_address entity_name doctype a ''Shipping'' s1)"






subsection \<open>Items: \<open>_save_item\<close>\<close>


definition item_exists :: "migrator \<Rightarrow> string \<Rightarrow> bool" where
  "item_exists s quickbooks_id =
     (\<exists>d \<in> set (item_table s). item_quickbooks_id d = Some quickbooks_id \<and> item_company d = company s)"

definition optional_account :: "migrator \<Rightarrow> string option \<Rightarrow> py_error + string option" where
  "optional_account s ref =
     (case ref of
        None \<Rightarrow> Inr None
      | Some r \<Rightarrow> py_bind (get_account_name_by_id s r) (\<lambda>n. Inr (Some n)))"


subsection \<open>Purchase invoices: \<open>__save_purchase_invoice\<close>\<close>

definition purchase_invoice_exists :: "migrator \<Rightarrow> string \<Rightarrow> bool" where
  "purchase_invoice_exists s quickbooks_id =
     (\<exists>d \<in> set (purchase_invoice_table s). inv_quickbooks_id d = quickbooks_id \<and> inv_company d = company s)"

text \<open>
  The loop of \<open>_get_pi_items\<close>. Here \<open>items[-1]["qty"] *= -1\<close> stands after the
  \<open>if\<close>/\<open>elif\<close>, so for a return it runs for every line, of whatever type.
\<close>

definition pi_item_of :: "migrator \<Rightarrow> qb_txn \<Rightarrow> txn_line \<Rightarrow> py_error + invoice_item option" where
  "pi_item_of s purchase_invoice line =
     (if DetailType line = ''ItemBasedExpenseLineDetail'' then
        py_bind (key (ItemBasedExpenseLineDetail line)) (\<lambda>d.
        py_bind (line_tax_code purchase_invoice (TaxCodeRef_value d)) (\<lambda>tax_code.
        py_bind (first (filter (\<lambda>i. item_quickbooks_id i = Some (ItemRef_value d) \<and> item_company i = company s)
                          (item_table s))) (\<lambda>item.
        py_bind (get_item_taxes s tax_code) (\<lambda>item_taxes.
          Inr (Some
            \<lparr>it_item_code = Some (item_name item), it_item_name = None, it_uom = item_stock_uom item,
             it_description = (case Description line of Some t \<Rightarrow> t | None \<Rightarrow> ItemRef_name d),
             it_qty = Qty d, it_price_list_rate = UnitPrice d,
             it_cost_center = default_cost_center s, it_warehouse = default_warehouse s,
             it_item_tax_rate = item_taxes, it_expense_account = None, it_income_account = None,
             it_margin_type = None, it_margin_rate_or_amount = None\<rparr>)))))
      else if DetailType line = ''AccountBasedExpenseLineDetail'' then
        py_bind (key (AccountBasedExpenseLineDetail line)) (\<lambda>d.
        py_bind (line_tax_code purchase_invoice (ATaxCodeRef_value d)) (\<lambda>tax_code.
        py_bind (get_account_name_by_id s (AccountRef_value d)) (\<lambda>expense_account.
        py_bind (get_item_taxes s tax_code) (\<lambda>item_taxes.
          Inr (Some
            \<lparr>it_item_code = None,
             it_item_name = Some (case Description line of Some t \<Rightarrow> t | None \<Rightarrow> AccountRef_name d),
             it_uom = ''Unit'',
             it_description = (case Description line of Some t \<Rightarrow> t | None \<Rightarrow> AccountRef_name d),
             it_qty = 1, it_price_list_rate = Amount line,
             it_cost_center = default_cost_center s, it_warehouse = default_warehouse s,
             it_item_tax_rate = item_taxes, it_expense_account = Some expense_account,
             it_income_account = None,
             it_margin_type = None, it_margin_rate_or_amount = None\<rparr>)))))
      else Inr None)"

fun pi_items :: "migrator \<Rightarrow> qb_txn \<Rightarrow> bool \<Rightarrow> txn_line list \<Rightarrow> invoice_item list \<Rightarrow> py_error + invoice_item list" where
  "pi_items s purchase_invoice is_return [] items = Inr items"
| "pi_items s purchase_invoice is_return (line # ls) items =
     py_bind (pi_item_of s purchase_invoice line) (\<lambda>new.
       let items1 = (case new of None \<Rightarrow> items | Some i \<Rightarrow> items @ [i])
       in if is_return then
            (if items1 = [] then Inl IndexError
             else pi_items s purchase_invoice is_return ls
                    (butlast items1 @ [(last items1)\<lparr>it_qty := it_qty (last items1) * (- 1)\<rparr>]))
          else pi_items s purchase_invoice is_return ls items1)"

definition purchase_invoice_dict :: "migrator \<Rightarrow> qb_txn \<Rightarrow> string \<Rightarrow> bool \<Rightarrow> py_error + invoice_doc" where
  "purchase_invoice_dict s invoice quickbooks_id is_return =
     py_bind (key (APAccountRef invoice)) (\<lambda>ap.
     py_bind (get_account_name_by_id s ap) (\<lambda>credit_to_account.
     py_bind (key (VendorRef invoice)) (\<lambda>vendor_ref.
     py_bind (first (filter (\<lambda>c. party_quickbooks_id c = Some vendor_ref \<and> party_company c = company s)
                       (supplier_table s))) (\<lambda>supplier.
     py_bind (pi_items s invoice is_return (Line invoice) []) (\<lambda>items.
     py_bind (get_taxes s invoice) (\<lambda>taxes.
       Inr \<lparr>inv_name = [], inv_quickbooks_id = quickbooks_id, inv_company = company s,
            inv_currency = CurrencyRef invoice,
            inv_conversion_rate = (case ExchangeRate invoice of Some r \<Rightarrow> r | None \<Rightarrow> 1),
            inv_posting_date = TxnDate invoice,
            inv_due_date = (case DueDate invoice of Some d \<Rightarrow> d | None \<Rightarrow> TxnDate invoice),
            inv_party = party_name supplier, inv_party_account = credit_to_account,
            inv_items = items, inv_taxes = taxes,
            inv_is_return = is_return, inv_is_pos = False, inv_payments = None,
            inv_apply_discount_on = None, inv_discount_amount = None\<rparr>))))))"

text \<open>
  \<open>__save_purchase_invoice\<close>; as in \<open>_save_sales_invoice\<close>, an exception while the
  document is built leaves the method as UnboundLocalError.
\<close>

definition save_purchase_invoice' ::
    "lib \<Rightarrow> qb_txn \<Rightarrow> string \<Rightarrow> bool \<Rightarrow> migrator \<Rightarrow> py_error option \<times> migrator" where
  "save_purchase_invoice' L invoice quickbooks_id is_return s =
     (if \<not> purchase_invoice_exists s quickbooks_id then
        (case purchase_invoice_dict s invoice quickbooks_id is_return of
           Inl e \<Rightarrow> (Some UnboundLocalError, s)
         | Inr invoice_dict \<Rightarrow>
             (None, s\<lparr>purchase_invoice_table := purchase_invoice_table s @
                [invoice_dict\<lparr>inv_name := autoname L ''Purchase Invoice''
                                               (length (purchase_invoice_table s))\<rparr>]\<rparr>))
      else (None, s))"

definition save_bill :: "lib \<Rightarrow> qb_txn \<Rightarrow> migrator \<Rightarrow> py_error option \<times> migrator" where
  "save_bill L bill s = save_purchase_invoice' L bill (''Bill - '' @ txn_Id bill) False s"

definition save_vendor_credit :: "lib \<Rightarrow> qb_txn \<Rightarrow> migrator \<Rightarrow> py_error option \<times> migrator" where
  "save_vendor_credit L vendor_credit s =
     save_purchase_invoice' L vendor_credit (''Vendor Credit - '' @ txn_Id vendor_credit) True s"

subsection \<open>The documents of the target, and two accounts\<close>

text \<open>All document tables of the ERP.\<close>

definition documents ::
    "migrator \<Rightarrow> account_doc list \<times> party_doc list \<times> party_doc list \<times> address_doc list
       \<times> item_doc list \<times> invoice_doc list \<times> invoice_doc list \<times> journal_entry_doc list" where
  "documents s =
     (account_table s, customer_table s, supplier_table s, address_table s, item_table s,
      sales_invoice_table s, purchase_invoice_table s, journal_entry_table s)"

text \<open>
  Account 1 is a sub-account of account 2, which has the greater id; both already carry
  the group flags of \<open>_preprocess_accounts\<close> and stand in its order.
\<close>

definition child_account :: qb_account where
  "child_account =
     \<lparr>acct_Id = ''1'', acct_Name = ''Checking'', SubAccount = True, ParentRef = Some ''2'',
      AccountType = ''Bank'', AccountSubType = None, acct_CurrencyRef = ''USD'', is_group = False\<rparr>"

definition parent_account :: qb_account where
  "parent_account =
     \<lparr>acct_Id = ''2'', acct_Name = ''Bank'', SubAccount = False, ParentRef = None,
      AccountType = ''Bank'', AccountSubType = None, acct_CurrencyRef = ''USD'', is_group = True\<rparr>"

definition ex_address :: qb_address where
  "ex_address = \<lparr>address_Id = ''2'', Line1 = Some ''4581 Finch St.'', City = Some ''Bayshore''\<rparr>"




section \<open>Token Manager: one refresh and one retry for every 401 response\<close>

lemma get_retries:
  "\<forall>i<k. respond w (requests_sent s + i) GET = 401 \<Longrightarrow>
   respond w (requests_sent s + k) GET \<noteq> 401 \<Longrightarrow>
   \<forall>i<k. refresh_reply w (refreshes_done s + i) \<noteq> None \<Longrightarrow>
   k < depth \<Longrightarrow>
   fst (get depth w s) = Inr \<lparr>status_code = respond w (requests_sent s + k) GET,
                              request_no = requests_sent s + k\<rparr>
   \<and> requests_sent (snd (get depth w s)) = requests_sent s + k + 1
   \<and> refreshes_done (snd (get depth w s)) = refreshes_done s + k"
proof (induction k arbitrary: depth s)
  case 0
  then obtain d where d: "depth = Suc d" by (cases depth) auto
  show ?case using 0 unfolding d by (simp add: Let_def)
next
  case (Suc k)
  then obtain d where d: "depth = Suc d" by (cases depth) auto
  from Suc.prems(1) have r0: "respond w (requests_sent s) GET = 401" by (metis add.right_neutral zero_less_Suc)
  from Suc.prems(3) obtain a r where rr: "refresh_reply w (refreshes_done s) = Some (a, r)"
    by (metis add.right_neutral zero_less_Suc not_None_eq surj_pair)
  define s2 where "s2 = s\<lparr>requests_sent := Suc (requests_sent s), access_token := a, refresh_token := r,
                   refreshes_done := Suc (refreshes_done s)\<rparr>"
  have step: "get depth w s = get d w s2"
    unfolding d s2_def using r0 rr by (simp add: Let_def refresh_tokens_def)
  have a1: "\<forall>i<k. respond w (requests_sent s2 + i) GET = 401"
    using Suc.prems(1) by (auto simp: s2_def)
  have a2: "respond w (requests_sent s2 + k) GET \<noteq> 401"
    using Suc.prems(2) by (simp add: s2_def)
  have a3: "\<forall>i<k. refresh_reply w (refreshes_done s2 + i) \<noteq> None"
    using Suc.prems(3) by (auto simp: s2_def)
  have a4: "k < d" using Suc.prems(4) d by simp
  show ?case using Suc.IH[OF a1 a2 a3 a4] unfolding step by (simp add: s2_def)
qed

lemma get_refresh_fails:
  "\<forall>i<k. respond w (requests_sent s + i) GET = 401 \<Longrightarrow>
   respond w (requests_sent s + k) GET = 401 \<Longrightarrow>
   \<forall>i<k. refresh_reply w (refreshes_done s + i) \<noteq> None \<Longrightarrow>
   refresh_reply w (refreshes_done s + k) = None \<Longrightarrow>
   k < depth \<Longrightarrow>
   fst (get depth w s) = Inl OAuthError
   \<and> requests_sent (snd (get depth w s)) = requests_sent s + k + 1
   \<and> refreshes_done (snd (get depth w s)) = refreshes_done s + k + 1"
proof (induction k arbitrary: depth s)
  case 0
  then obtain d where d: "depth = Suc d" by (cases depth) auto
  show ?case using 0 unfolding d by (simp add: Let_def refresh_tokens_def)
next
  case (Suc k)
  then obtain d where d: "depth = Suc d" by (cases depth) auto
  from Suc.prems(1) have r0: "respond w (requests_sent s) GET = 401" by (metis add.right_neutral zero_less_Suc)
  from Suc.prems(3) obtain a r where rr: "refresh_reply w (refreshes_done s) = Some (a, r)"
    by (metis add.right_neutral zero_less_Suc not_None_eq surj_pair)
  define s2 where "s2 = s\<lparr>requests_sent := Suc (requests_sent s), access_token := a, refresh_token := r,
                   refreshes_done := Suc (refreshes_done s)\<rparr>"
  have step: "get depth w s = get d w s2"
    unfolding d s2_def using r0 rr by (simp add: Let_def refresh_tokens_def)
  have a1: "\<forall>i<k. respond w (requests_sent s2 + i) GET = 401"
    using Suc.prems(1) by (auto simp: s2_def)
  have a2: "respond w (requests_sent s2 + k) GET = 401"
    using Suc.prems(2) by (simp add: s2_def)
  have a3: "\<forall>i<k. refresh_reply w (refreshes_done s2 + i) \<noteq> None"
    using Suc.prems(3) by (auto simp: s2_def)
  have a3': "refresh_reply w (refreshes_done s2 + k) = None"
    using Suc.prems(4) by (simp add: s2_def)
  have a4: "k < d" using Suc.prems(5) d by simp
  show ?case using Suc.IH[OF a1 a2 a3 a3' a4] unfolding step by (simp add: s2_def)
qed

lemma get_unbounded:
  "\<forall>i. respond w i GET = 401 \<Longrightarrow> \<forall>j. refresh_reply w j \<noteq> None \<Longrightarrow>
   fst (get depth w s) = Inl RecursionError
   \<and> refreshes_done (snd (get depth w s)) = refreshes_done s + depth"
proof (induction depth arbitrary: s)
  case 0
  then show ?case by simp
next
  case (Suc depth)
  from Suc.prems(2) obtain a r where rr: "refresh_reply w (refreshes_done s) = Some (a, r)"
    by (metis not_None_eq surj_pair)
  show ?case using Suc.IH[OF Suc.prems] Suc.prems(1) rr
    by (simp add: Let_def refresh_tokens_def)
qed

lemma post_retries:
  "\<forall>i<k. respond w (requests_sent s + i) POST = 401 \<Longrightarrow>
   respond w (requests_sent s + k) POST \<noteq> 401 \<Longrightarrow>
   \<forall>i<k. refresh_reply w (refreshes_done s + i) \<noteq> None \<Longrightarrow>
   k < depth \<Longrightarrow>
   fst (post depth w s) = Inr \<lparr>status_code = respond w (requests_sent s + k) POST,
                              request_no = requests_sent s + k\<rparr>
   \<and> requests_sent (snd (post depth w s)) = requests_sent s + k + 1
   \<and> refreshes_done (snd (post depth w s)) = refreshes_done s + k"
proof (induction k arbitrary: depth s)
  case 0
  then obtain d where d: "depth = Suc d" by (cases depth) auto
  show ?case using 0 unfolding d by (simp add: Let_def)
next
  case (Suc k)
  then obtain d where d: "depth = Suc d" by (cases depth) auto
  from Suc.prems(1) have r0: "respond w (requests_sent s) POST = 401" by (metis add.right_neutral zero_less_Suc)
  from Suc.prems(3) obtain a r where rr: "refresh_reply w (refreshes_done s) = Some (a, r)"
    by (metis add.right_neutral zero_less_Suc not_None_eq surj_pair)
  define s2 where "s2 = s\<lparr>requests_sent := Suc (requests_sent s), access_token := a, refresh_token := r,
                   refreshes_done := Suc (refreshes_done s)\<rparr>"
  have step: "post depth w s = post d w s2"
    unfolding d s2_def using r0 rr by (simp add: Let_def refresh_tokens_def)
  have a1: "\<forall>i<k. respond w (requests_sent s2 + i) POST = 401"
    using Suc.prems(1) by (auto simp: s2_def)
  have a2: "respond w (requests_sent s2 + k) POST \<noteq> 401"
    using Suc.prems(2) by (simp add: s2_def)
  have a3: "\<forall>i<k. refresh_reply w (refreshes_done s2 + i) \<noteq> None"
    using Suc.prems(3) by (auto simp: s2_def)
  have a4: "k < d" using Suc.prems(4) d by simp
  show ?case using Suc.IH[OF a1 a2 a3 a4] unfolding step by (simp add: s2_def)
qed

lemma post_refresh_fails:
  "\<forall>i<k. respond w (requests_sent s + i) POST = 401 \<Longrightarrow>
   respond w (requests_sent s + k) POST = 401 \<Longrightarrow>
   \<forall>i<k. refresh_reply w (refreshes_done s + i) \<noteq> None \<Longrightarrow>
   refresh_reply w (refreshes_done s + k) = None \<Longrightarrow>
   k < depth \<Longrightarrow>
   fst (post depth w s) = Inl OAuthError
   \<and> requests_sent (snd (post depth w s)) = requests_sent s + k + 1
   \<and> refreshes_done (snd (post depth w s)) = refreshes_done s + k + 1"
proof (induction k arbitrary: depth s)
  case 0
  then obtain d where d: "depth = Suc d" by (cases depth) auto
  show ?case using 0 unfolding d by (simp add: Let_def refresh_tokens_def)
next
  case (Suc k)
  then obtain d where d: "depth = Suc d" by (cases depth) auto
  from Suc.prems(1) have r0: "respond w (requests_sent s) POST = 401" by (metis add.right_neutral zero_less_Suc)
  from Suc.prems(3) obtain a r where rr: "refresh_reply w (refreshes_done s) = Some (a, r)"
    by (metis add.right_neutral zero_less_Suc not_None_eq surj_pair)
  define s2 where "s2 = s\<lparr>requests_sent := Suc (requests_sent s), access_token := a, refresh_token := r,
                   refreshes_done := Suc (refreshes_done s)\<rparr>"
  have step: "post depth w s = post d w s2"
    unfolding d s2_def using r0 rr by (simp add: Let_def refresh_tokens_def)
  have a1: "\<forall>i<k. respond w (requests_sent s2 + i) POST = 401"
    using Suc.prems(1) by (auto simp: s2_def)
  have a2: "respond w (requests_sent s2 + k) POST = 401"
    using Suc.prems(2) by (simp add: s2_def)
  have a3: "\<forall>i<k. refresh_reply w (refreshes_done s2 + i) \<noteq> None"
    using Suc.prems(3) by (auto simp: s2_def)
  have a3': "refresh_reply w (refreshes_done s2 + k) = None"
    using Suc.prems(4) by (simp add: s2_def)
  have a4: "k < d" using Suc.prems(5) d by simp
  show ?case using Suc.IH[OF a1 a2 a3 a3' a4] unfolding step by (simp add: s2_def)
qed

lemma post_unbounded:
  "\<forall>i. respond w i POST = 401 \<Longrightarrow> \<forall>j. refresh_reply w j \<noteq> None \<Longrightarrow>
   fst (post depth w s) = Inl RecursionError
   \<and> refreshes_done (snd (post depth w s)) = refreshes_done s + depth"
proof (induction depth arbitrary: s)
  case 0
  then show ?case by simp
next
  case (Suc depth)
  from Suc.prems(2) obtain a r where rr: "refresh_reply w (refreshes_done s) = Some (a, r)"
    by (metis not_None_eq surj_pair)
  show ?case using Suc.IH[OF Suc.prems] Suc.prems(1) rr
    by (simp add: Let_def refresh_tokens_def)
qed


text \<open>
  Claim C4, as the code has it. \<open>_get\<close> and \<open>_post\<close> refresh the tokens and call
  themselves again after every 401 response, with no bound of their own on the number of
  rounds. When the first \<open>k\<close> responses are 401, the \<open>k\<close> refreshes succeed and \<open>k\<close> is
  below the recursion limit, then: if the next response is not 401 it is returned, after
  exactly \<open>k\<close> refreshes and \<open>k + 1\<close> requests (one refresh and one retry for \<open>k = 1\<close>);
  if the next response is 401 and the refresh fails, the refresh's error is what the
  caller gets, and no further request is sent.
\<close>

theorem refresh_and_retry:
  assumes "\<forall>i<k. respond w (requests_sent s + i) m = 401"
      and "\<forall>i<k. refresh_reply w (refreshes_done s + i) \<noteq> None"
      and "k < depth"
  shows "(respond w (requests_sent s + k) m \<noteq> 401 \<longrightarrow>
            fst (outbound m depth w s)
              = Inr \<lparr>status_code = respond w (requests_sent s + k) m,
                       request_no = requests_sent s + k\<rparr>
          \<and> requests_sent (snd (outbound m depth w s)) = requests_sent s + k + 1
          \<and> refreshes_done (snd (outbound m depth w s)) = refreshes_done s + k)
       \<and> (respond w (requests_sent s + k) m = 401
            \<and> refresh_reply w (refreshes_done s + k) = None \<longrightarrow>
            fst (outbound m depth w s) = Inl OAuthError
          \<and> requests_sent (snd (outbound m depth w s)) = requests_sent s + k + 1
          \<and> refreshes_done (snd (outbound m depth w s)) = refreshes_done s + k + 1)"
proof (cases m)
  case GET
  show ?thesis
    using get_retries[OF assms(1)[unfolded GET] _ assms(2,3)]
          get_refresh_fails[OF assms(1)[unfolded GET] _ assms(2) _ assms(3)]
    unfolding GET outbound_def by simp
next
  case POST
  show ?thesis
    using post_retries[OF assms(1)[unfolded POST] _ assms(2,3)]
          post_refresh_fails[OF assms(1)[unfolded POST] _ assms(2) _ assms(3)]
    unfolding POST outbound_def by simp
qed

theorem refresh_and_retry_witness:
  "fst (get 1000 world_401_once conn0) = Inr \<lparr>status_code = 200, request_no = 1\<rparr>
   \<and> requests_sent (snd (get 1000 world_401_once conn0)) = 2
   \<and> refreshes_done (snd (get 1000 world_401_once conn0)) = 1
   \<and> fst (post 1000 world_refresh_fails conn0) = Inl OAuthError
   \<and> refreshes_done (snd (post 1000 world_refresh_fails conn0)) = 1"
  using refresh_and_retry[of 1 world_401_once conn0 GET 1000]
        refresh_and_retry[of 0 world_refresh_fails conn0 POST 1000]
  by (simp add: world_401_once_def world_refresh_fails_def conn0_def outbound_def)

text \<open>
  The claim as stated fails: when the retried request is answered 401 again, the tokens
  are refreshed a second time and the request is sent a third time.
\<close>

theorem second_401_refreshes_again:
  "refreshes_done (snd (get 1000 world_401_twice conn0)) = 2
   \<and> requests_sent (snd (get 1000 world_401_twice conn0)) = 3
   \<and> fst (get 1000 world_401_twice conn0) = Inr \<lparr>status_code = 200, request_no = 2\<rparr>
   \<and> \<not> refreshes_done (snd (get 1000 world_401_twice conn0)) \<le> 1"
  by (simp add: numeral_eq_Suc world_401_twice_def conn0_def Let_def refresh_tokens_def)

section \<open>Entity Fetcher: pages cover the counted records\<close>

lemma py_range_unfold:
  "0 < step \<Longrightarrow> start < stop \<Longrightarrow> py_range start stop step = start # py_range (start + step) stop step"
  by simp

lemma py_range_done: "\<not> start < stop \<Longrightarrow> py_range start stop step = []"
  by simp

declare py_range.simps [simp del]

lemma set_py_range:
  "0 < step \<Longrightarrow> set (py_range a b step) = {p. a \<le> p \<and> p < b \<and> (p - a) mod step = 0}"
proof (induction a b step rule: py_range.induct)
  case (1 start stop step)
  show ?case
  proof (cases "start < stop")
    case True
    have IH: "set (py_range (start + step) stop step)
        = {p. start + step \<le> p \<and> p < stop \<and> (p - (start + step)) mod step = 0}"
      using 1 True by simp
    have eq: "(p - (start + step)) mod step = (p - start) mod step" for p
    proof -
      have "p - (start + step) = (p - start) - step" by simp
      then show ?thesis by (simp only: minus_mod_self2)
    qed
    have far: "start + step \<le> p" if a: "start \<le> p" "(p - start) mod step = 0" "p \<noteq> start" for p
    proof -
      from a have "step dvd (p - start)" "0 < p - start" by auto
      then have "step \<le> p - start" using zdvd_imp_le by blast
      then show "start + step \<le> p" by simp
    qed
    have U: "set (py_range start stop step) = insert start (set (py_range (start + step) stop step))"
      using True 1(2) by (simp add: py_range_unfold)
    show ?thesis
    proof (intro set_eqI iffI)
      fix p assume "p \<in> set (py_range start stop step)"
      then have "p = start \<or> (start + step \<le> p \<and> p < stop \<and> (p - start) mod step = 0)"
        unfolding U IH eq by simp
      then show "p \<in> {p. start \<le> p \<and> p < stop \<and> (p - start) mod step = 0}"
        using True 1(2) by auto
    next
      fix p assume "p \<in> {p. start \<le> p \<and> p < stop \<and> (p - start) mod step = 0}"
      then have a: "start \<le> p" "p < stop" "(p - start) mod step = 0" by simp_all
      show "p \<in> set (py_range start stop step)"
        unfolding U IH eq using a far[of p] by auto
    qed
  next
    case False
    then show ?thesis by (auto simp: py_range_done)
  qed
qed

lemma mod_1000_shift: "((p::int) - 1) mod 1000 = 0 \<longleftrightarrow> p mod 1000 = 1"
proof
  assume a: "(p - 1) mod 1000 = 0"
  have "p mod 1000 = ((p - 1) mod 1000 + 1) mod 1000"
    by (simp only: mod_add_left_eq) simp
  then show "p mod 1000 = 1" using a by simp
next
  assume a: "p mod 1000 = 1"
  have "(p - 1) mod 1000 = (p mod 1000 - 1) mod 1000"
    by (simp only: mod_diff_left_eq)
  then show "(p - 1) mod 1000 = 0" using a by simp
qed

lemma window_unique:
  assumes "1 \<le> q" "q \<le> n"
  shows "\<exists>!p. p \<in> set (start_positions n) \<and> p \<le> q \<and> q < p + max_result_count"
proof -
  let ?p = "q - (q - 1) mod 1000"
  have m: "0 \<le> (q - 1) mod 1000" "(q - 1) mod 1000 < 1000" by simp_all
  have S: "set (start_positions n) = {p. 1 \<le> p \<and> p < n + 1 \<and> (p - 1) mod 1000 = 0}"
    by (simp add: start_positions_def max_result_count_def set_py_range)
  have "?p - 1 = (q - 1) - (q - 1) mod 1000" by simp
  also have "\<dots> = 1000 * ((q - 1) div 1000)" by (simp only: minus_mod_eq_mult_div)
  finally have "(?p - 1) mod 1000 = 0" by simp
  moreover have "1 \<le> ?p"
  proof -
    have "0 \<le> q - 1" using assms(1) by simp
    then have "(q - 1) mod 1000 \<le> q - 1" by (rule zmod_le_nonneg_dividend)
    then show ?thesis by linarith
  qed
  ultimately have ex: "?p \<in> set (start_positions n) \<and> ?p \<le> q \<and> q < ?p + max_result_count"
    using assms m by (simp add: S max_result_count_def)
  have uniq: "p = ?p" if "p \<in> set (start_positions n) \<and> p \<le> q \<and> q < p + max_result_count" for p
  proof -
    from that have a: "(p - 1) mod 1000 = 0" "p \<le> q" "q < p + 1000"
      by (simp_all add: S max_result_count_def)
    then obtain k where k: "p - 1 = 1000 * k" by (meson dvd_def mod_eq_0_iff_dvd)
    have "q - 1 = (q - p) + 1000 * k" using k by simp
    then have "(q - 1) mod 1000 = (q - p) mod 1000" by (simp only: mod_mult_self2)
    also have "\<dots> = q - p" using a by simp
    finally show ?thesis by simp
  qed
  show ?thesis
  proof (rule ex1I[of _ ?p])
    show "?p \<in> set (start_positions n) \<and> ?p \<le> q \<and> q < ?p + max_result_count" by (rule ex)
  next
    fix p assume "p \<in> set (start_positions n) \<and> p \<le> q \<and> q < p + max_result_count"
    then show "p = ?p" by (rule uniq)
  qed
qed

lemma fetch_pages_select:
  "1 \<le> p \<Longrightarrow> fetch_pages (qb_select xs) (py_range p (int (length xs) + 1) max_result_count) acc
     = Inr (acc @ drop (nat (p - 1)) xs)"
proof (induction p "int (length xs) + 1" max_result_count arbitrary: acc rule: py_range.induct)
  case (1 start)
  show ?case
  proof (cases "start < int (length xs) + 1")
    case True
    have step: "0 < max_result_count" by (simp add: max_result_count_def)
    have nn: "nat (start + max_result_count - 1) = nat max_result_count + nat (start - 1)"
      using 1(2) step by linarith
    have "fetch_pages (qb_select xs) (py_range start (int (length xs) + 1) max_result_count) acc
        = fetch_pages (qb_select xs) (py_range (start + max_result_count) (int (length xs) + 1) max_result_count)
            (acc @ take (nat max_result_count) (drop (nat (start - 1)) xs))"
      using True step by (simp add: py_range_unfold qb_select_def)
    also have "\<dots> = Inr ((acc @ take (nat max_result_count) (drop (nat (start - 1)) xs))
                       @ drop (nat (start + max_result_count - 1)) xs)"
    proof -
      have "1 \<le> start + max_result_count" using 1(2) step by linarith
      then show ?thesis using 1(1)[OF _ , of "acc @ take (nat max_result_count) (drop (nat (start - 1)) xs)"] True step
        by simp
    qed
    also have "\<dots> = Inr (acc @ drop (nat (start - 1)) xs)"
    proof -
      have "drop (nat (start + max_result_count - 1)) xs = drop (nat max_result_count) (drop (nat (start - 1)) xs)"
        unfolding nn by (simp only: drop_drop)
      then show ?thesis by (simp only: append_assoc append_take_drop_id)
    qed
    finally show ?thesis .
  next
    case False
    then have "length xs \<le> nat (start - 1)" using 1(2) by linarith
    then show ?thesis using False by (simp add: py_range_done)
  qed
qed

lemma sorted_py_range: "0 < step \<Longrightarrow> sorted_wrt (<) (py_range a b step)"
proof (induction a b step rule: py_range.induct)
  case (1 start stop step)
  show ?case
  proof (cases "start < stop")
    case True
    then have "sorted_wrt (<) (py_range (start + step) stop step)" using 1 by simp
    moreover have "\<forall>p \<in> set (py_range (start + step) stop step). start < p"
      using 1(2) by (simp add: set_py_range)
    ultimately show ?thesis using True 1(2) by (simp add: py_range_unfold)
  next
    case False
    then show ?thesis by (simp add: py_range_done)
  qed
qed

text \<open>
  Claim C5. For a reported total count \<open>n \<ge> 0\<close> the page queries start at exactly the
  positions \<open>p\<close> with \<open>1 \<le> p \<le> n\<close> and \<open>p mod 1000 = 1\<close>, in increasing order, each
  with window size 1000; every position \<open>1..n\<close> lies in exactly one requested window;
  against an endpoint that holds \<open>n\<close> records the concatenation of the pages is the
  whole record list; and for \<open>n = 0\<close> no page is requested.
\<close>

theorem paginated_fetch:
  assumes "0 \<le> n"
  shows "set (start_positions n) = {p. 1 \<le> p \<and> p \<le> n \<and> p mod 1000 = 1}
       \<and> sorted_wrt (<) (start_positions n)
       \<and> (\<forall>q. 1 \<le> q \<and> q \<le> n \<longrightarrow>
             (\<exists>!p. p \<in> set (start_positions n) \<and> p \<le> q \<and> q < p + max_result_count))
       \<and> (\<forall>xs :: 'r list. int (length xs) = n \<longrightarrow> fetch_entries (Some n) (qb_select xs) = Inr xs)
       \<and> (n = 0 \<longrightarrow> start_positions n = [])"
proof (intro conjI allI impI)
  have S: "set (start_positions n) = {p. 1 \<le> p \<and> p < n + 1 \<and> (p - 1) mod 1000 = 0}"
    by (simp add: start_positions_def max_result_count_def set_py_range)
  show "set (start_positions n) = {p. 1 \<le> p \<and> p \<le> n \<and> p mod 1000 = 1}"
    unfolding S mod_1000_shift by auto
next
  show "sorted_wrt (<) (start_positions n)"
    by (simp add: start_positions_def max_result_count_def sorted_py_range)
next
  fix q assume "1 \<le> q \<and> q \<le> n"
  then show "\<exists>!p. p \<in> set (start_positions n) \<and> p \<le> q \<and> q < p + max_result_count"
    using window_unique[of q n] by simp
next
  fix xs :: "'r list" assume "int (length xs) = n"
  then show "fetch_entries (Some n) (qb_select xs) = Inr xs"
    using fetch_pages_select[of 1 xs "[]"]
    by (simp add: fetch_entries_def start_positions_def)
next
  assume "n = 0"
  then show "start_positions n = []"
    by (simp add: start_positions_def py_range_done)
qed

theorem paginated_fetch_witness:
  "(0::int) \<le> 2500
   \<and> set (start_positions 2500) = {p. 1 \<le> p \<and> p \<le> 2500 \<and> p mod 1000 = 1}
   \<and> fetch_entries (Some 2500) (qb_select (replicate 2500 True)) = Inr (replicate 2500 True)"
proof -
  have h: "(0::int) \<le> 2500" by simp
  note T = paginated_fetch[OF h, where 'r = bool]
  have "int (length (replicate 2500 True)) = 2500" by simp
  with T have "fetch_entries (Some 2500) (qb_select (replicate 2500 True)) = Inr (replicate 2500 True)"
    by blast
  with T h show ?thesis by blast
qed

lemma start_positions_example: "start_positions 2500 = [1, 1001, 2001]"
  by (simp add: start_positions_def max_result_count_def py_range_unfold py_range_done)

section \<open>General Ledger Reconstructor: grouping and skipped sections\<close>















lemma not_specified_account:
  "section_account env (Some (\<lparr>col_value = Some ''Not Specified'', col_id = None\<rparr> # cs)) account = Inr None"
  by (simp add: section_account_def)

lemma not_specified_section:
  "get_gl_entries_from_section env
     (Section (Some (\<lparr>col_value = Some ''Not Specified'', col_id = None\<rparr> # cs)) rows) account gl
   = (None, gl)"
  by (cases rows) (simp_all add: not_specified_account)

lemma not_specified_in_rows:
  "section_rows env
     (rs1 @ Section (Some (\<lparr>col_value = Some ''Not Specified'', col_id = None\<rparr> # cs)) rows # rs2)
     account entries gl
   = section_rows env (rs1 @ rs2) account entries gl"
proof (induction rs1 arbitrary: entries gl)
  case Nil
  show ?case by (simp add: not_specified_section del: get_gl_entries_from_section.simps)
next
  case (Cons r rs1)
  show ?case
  proof (cases r)
    case (Data data)
    then show ?thesis using Cons by (simp split: sum.splits)
  next
    case (Section h rs)
    then show ?thesis using Cons
      by (simp split: prod.splits option.splits del: get_gl_entries_from_section.simps)
  next
    case OtherRow
    then show ?thesis using Cons by simp
  qed
qed

lemma not_specified_in_report:
  "report_sections env
     (rs1 @ Section (Some (\<lparr>col_value = Some ''Not Specified'', col_id = None\<rparr> # cs)) rows # rs2) gl
   = report_sections env (rs1 @ rs2) gl"
proof (induction rs1 arbitrary: gl)
  case Nil
  show ?case by (simp add: not_specified_section del: get_gl_entries_from_section.simps)
next
  case (Cons r rs1)
  show ?case
  proof (cases r)
    case (Data data)
    then show ?thesis using Cons by simp
  next
    case (Section h rs)
    then show ?thesis using Cons
      by (simp split: prod.splits option.splits del: get_gl_entries_from_section.simps)
  next
    case OtherRow
    then show ?thesis using Cons by simp
  qed
qed

text \<open>
  Claim C3. A section whose header column has the value "Not Specified" and no id
  leaves \<open>gl_entries\<close> as it was, whatever its rows and nested sections hold; the walk
  of the enclosing section and the whole reconstruction (\<open>gl_entries\<close> and
  \<open>general_ledger\<close>) are the same as for the report without that section.
\<close>

theorem not_specified_contributes_nothing:
  "get_gl_entries_from_section env
     (Section (Some (\<lparr>col_value = Some ''Not Specified'', col_id = None\<rparr> # cs)) rows) account gl
     = (None, gl)
   \<and> section_rows env
       (rs1 @ Section (Some (\<lparr>col_value = Some ''Not Specified'', col_id = None\<rparr> # cs)) rows # rs2)
       account entries gl
     = section_rows env (rs1 @ rs2) account entries gl
   \<and> fetch_general_ledger env
       (rs1 @ Section (Some (\<lparr>col_value = Some ''Not Specified'', col_id = None\<rparr> # cs)) rows # rs2)
     = fetch_general_ledger env (rs1 @ rs2)"
  by (simp only: not_specified_section not_specified_in_rows not_specified_in_report
      fetch_general_ledger_def simp_thms)

section \<open>Fiscal Year Extender: the loop and its skipped case\<close>

lemma create_years_stop:
  "\<not> date_less D (year_start_date fy) \<Longrightarrow> create_years D fy table = (None, table)"
  by (subst create_years.simps) simp

lemma create_years_fail:
  "date_less D (year_start_date fy) \<Longrightarrow> new_fiscal_year fy = Inl e \<Longrightarrow>
   create_years D fy table = (Some e, table)"
  by (subst create_years.simps) simp

lemma create_years_step:
  "date_less D (year_start_date fy) \<Longrightarrow> new_fiscal_year fy = Inr n \<Longrightarrow>
   create_years D fy table = create_years D n (table @ [n])"
  by (subst create_years.simps) simp

lemma create_years_append_all:
  fixes table :: "fiscal_year list"
  shows "\<forall>t. create_years D fy t = (fst (create_years D fy []), t @ snd (create_years D fy []))"
proof (induction D fy table rule: create_years.induct)
  case (1 D fy table)
  show ?case
  proof (cases "date_less D (year_start_date fy)")
    case False
    then show ?thesis by (simp add: create_years_stop)
  next
    case True
    show ?thesis
    proof (cases "new_fiscal_year fy")
      case (Inl e)
      then show ?thesis using True by (simp add: create_years_fail)
    next
      case (Inr n)
      note IH = 1[OF True Inr, rule_format]
      show ?thesis
      proof
        fix t
        have a: "create_years D fy t = create_years D n (t @ [n])"
          using True Inr by (rule create_years_step)
        have b: "create_years D fy [] = create_years D n [n]"
          using create_years_step[OF True Inr, of "[]"] by simp
        show "create_years D fy t = (fst (create_years D fy []), t @ snd (create_years D fy []))"
          unfolding a b using IH[of "t @ [n]"] IH[of "[n]"] by simp
      qed
    qed
  qed
qed

lemma create_years_append:
  "create_years D fy table = (fst (create_years D fy []), table @ created_years D fy)"
  unfolding created_years_def by (rule create_years_append_all[rule_format])




lemma error_step:
  "date_less D (year_start_date fy) \<Longrightarrow> new_fiscal_year fy = Inr n \<Longrightarrow>
   fst (create_years D fy t) = fst (create_years D n [])"
proof -
  assume a: "date_less D (year_start_date fy)" "new_fiscal_year fy = Inr n"
  have "fst (create_years D fy t) = fst (create_years D n (t @ [n]))"
    using create_years_step[OF a, of t] by simp
  also have "\<dots> = fst (create_years D n [])"
    by (subst create_years_append) simp
  finally show ?thesis .
qed


lemma days_in_month_bounds: "28 \<le> days_in_month y m" "days_in_month y m \<le> 31"
  by (simp_all add: days_in_month_def)

lemma days_in_month_not_feb: "m \<noteq> 2 \<Longrightarrow> days_in_month y m = days_in_month y' m"
  by (simp add: days_in_month_def)


lemma shift_years_valid:
  "valid_date d \<Longrightarrow> 2 \<le> year d \<Longrightarrow> valid_date (shift_years d (- 1))"
  using days_in_month_bounds[of "year d - 1" "month d"]
  by (auto simp: valid_date_def shift_years_def)

lemma consecutive_leap: "leap_year y \<Longrightarrow> \<not> leap_year (y - 1)"
proof
  assume a: "leap_year y" "leap_year (y - 1)"
  then have "y mod 4 = 0" "(y - 1) mod 4 = 0" by (simp_all add: leap_year_def)
  then show False by presburger
qed

lemma shift_years_not_feb29: "valid_date d \<Longrightarrow> \<not> feb29 (shift_years d (- 1))"
proof
  assume v: "valid_date d" and f: "feb29 (shift_years d (- 1))"
  from f have m: "month d = 2" and d29: "min (day d) (days_in_month (year d - 1) 2) = 29"
    by (auto simp: feb29_def shift_years_def)
  then have l1: "leap_year (year d - 1)" and "29 \<le> day d"
    by (auto simp: days_in_month_def min_def split: if_splits)
  then have "leap_year (year d)" using v m by (auto simp: valid_date_def days_in_month_def split: if_splits)
  then show False using l1 consecutive_leap by blast
qed

lemma anchor_valid: "valid_date d \<Longrightarrow> valid_date (anchor d) \<and> \<not> feb29 (anchor d)"
  by (auto simp: anchor_def feb29_def valid_date_def days_in_month_def)


lemma shift_anchor: "valid_date d \<Longrightarrow> shift_years (anchor d) (- 1) = shift_years d (- 1)"
proof (cases "feb29 d")
  case False
  then show ?thesis by (simp add: anchor_def)
next
  case True
  assume v: "valid_date d"
  then have "leap_year (year d)" using True
    by (auto simp: valid_date_def feb29_def days_in_month_def split: if_splits)
  then have "\<not> leap_year (year d - 1)" by (rule consecutive_leap)
  then show ?thesis using True
    by (simp add: anchor_def feb29_def shift_years_def days_in_month_def)
qed

lemma shift_years_strict_mono:
  assumes "date_less a b" "valid_date b" "\<not> feb29 b"
  shows "date_less (shift_years a (- 1)) (shift_years b (- 1))"
proof (cases "year a = year b \<and> month a = month b")
  case False
  then show ?thesis using assms(1) by (auto simp: date_less_def shift_years_def)
next
  case True
  then have d: "day a < day b" using assms(1) by (auto simp: date_less_def)
  have "day a < days_in_month (year b - 1) (month b)"
  proof (cases "month b = 2")
    case True
    then have "day b \<le> 28" using assms(2,3)
      by (auto simp: valid_date_def feb29_def days_in_month_def split: if_splits)
    then show ?thesis using d days_in_month_bounds(1)[of "year b - 1" "month b"] by linarith
  next
    case False
    then have "days_in_month (year b - 1) (month b) = days_in_month (year b) (month b)"
      by (rule days_in_month_not_feb)
    then show ?thesis using d assms(2) by (simp add: valid_date_def)
  qed
  then show ?thesis using True d by (auto simp: date_less_def shift_years_def)
qed


lemma regular_steady: "regular_year f \<Longrightarrow> steady_year f"
  by (auto simp: regular_year_def steady_year_def date_le_def date_less_def valid_date_def)

lemma new_fiscal_year_Inr:
  "new_fiscal_year f = Inr n \<Longrightarrow>
     add_years (year_start_date f) (- 1) = Inr (year_start_date n)
   \<and> add_years (year_end_date f) (- 1) = Inr (year_end_date n)"
  by (auto simp: new_fiscal_year_def py_bind_def split: sum.splits)

lemma add_years_Inr: "add_years d n = Inr d' \<Longrightarrow> d' = shift_years d n"
  by (auto simp: add_years_def split: if_splits)

lemma new_fiscal_year_dates:
  "new_fiscal_year f = Inr n \<Longrightarrow>
     year_start_date n = shift_years (year_start_date f) (- 1)
   \<and> year_end_date n = shift_years (year_end_date f) (- 1)"
  using new_fiscal_year_Inr add_years_Inr by blast

lemma new_fiscal_year_succeeds:
  "steady_year f \<Longrightarrow> 2 \<le> year (year_start_date f) \<Longrightarrow> \<exists>n. new_fiscal_year f = Inr n"
  by (auto simp: steady_year_def new_fiscal_year_def add_years_def py_bind_def valid_date_def)

lemma anchor_id: "\<not> feb29 d \<Longrightarrow> anchor d = d"
  by (simp add: anchor_def)

lemma steady_year_step:
  assumes "steady_year f" "2 \<le> year (year_start_date f)" "new_fiscal_year f = Inr n"
  shows "steady_year n"
proof -
  note d = new_fiscal_year_dates[OF assms(3)]
  have v: "valid_date (year_start_date f)" using assms(1) by (simp add: steady_year_def)
  have 1: "valid_date (year_start_date n)" using v assms(2) d by (simp add: shift_years_valid)
  have 2: "year (year_start_date n) \<le> year (year_end_date n)" "year (year_end_date n) \<le> 9999"
    using assms(1) d by (simp_all add: steady_year_def shift_years_def)
  have a: "anchor (year_start_date n) = year_start_date n"
    using d shift_years_not_feb29[OF v] by (simp add: anchor_id)
  have "date_less (shift_years (shift_years (year_end_date f) (- 1)) (- 1))
          (shift_years (anchor (year_start_date f)) (- 1))"
    using assms(1) anchor_valid[OF v] by (simp add: steady_year_def shift_years_strict_mono)
  then have 3: "date_less (shift_years (year_end_date n) (- 1)) (anchor (year_start_date n))"
    unfolding a using d shift_anchor[OF v] by simp
  show ?thesis using 1 2 3 by (simp add: steady_year_def)
qed


lemma in_year_one_shift:
  "in_year_one (shift_years d (- 1)) = in_year_one d"
  by (auto simp: in_year_one_def shift_years_def days_in_month_def leap_year_def min_def)


lemma in_year_one_le: "valid_date d \<Longrightarrow> date_le (in_year_one d) d"
  by (auto simp: in_year_one_def valid_date_def date_le_def date_less_def)



text \<open>
  The other side of the year bound: when \<open>D\<close> lies before the start date moved to
  year 1, the loop reaches a start date in year 1 that is still after \<open>D\<close>, and
  \<open>add_years\<close> raises ValueError; the years created until then stay in the table.
\<close>

lemma create_years_below_year_one:
  fixes table :: "fiscal_year list"
  shows "steady_year fy \<and> date_less D (in_year_one (year_start_date fy)) \<longrightarrow>
     fst (create_years D fy []) = Some ValueError"
proof (induction D fy table rule: create_years.induct)
  case (1 D fy table)
  show ?case
  proof
    assume h: "steady_year fy \<and> date_less D (in_year_one (year_start_date fy))"
    have v: "valid_date (year_start_date fy)" using h by (simp add: steady_year_def)
    have True: "date_less D (year_start_date fy)"
      using h in_year_one_le[OF v] by (auto simp: date_le_def date_less_def)
    show "fst (create_years D fy []) = Some ValueError"
    proof (cases "2 \<le> year (year_start_date fy)")
      case False
      then have "new_fiscal_year fy = Inl ValueError"
        by (simp add: new_fiscal_year_def add_years_def py_bind_def)
      then show ?thesis using True by (simp add: create_years_fail)
    next
      case y2: True
      obtain n where n: "new_fiscal_year fy = Inr n"
        using new_fiscal_year_succeeds[OF _ y2] h by blast
      have sn: "steady_year n" using h y2 n steady_year_step by blast
      have hn: "date_less D (in_year_one (year_start_date n))"
        using h new_fiscal_year_dates[OF n] by (simp add: in_year_one_shift)
      have "fst (create_years D n []) = Some ValueError" using 1[OF True n] sn hn by simp
      then show ?thesis using error_step[OF True n, of "[]"] by simp
    qed
  qed
qed


lemma ex_created_2019:
  "create_years (mk_date 2016 5 10) fy_2019 [] =
     (None,
      [\<lparr>fy_year = SingleYear 2018, year_start_date = mk_date 2018 1 1, year_end_date = mk_date 2018 12 31\<rparr>,
       \<lparr>fy_year = SingleYear 2017, year_start_date = mk_date 2017 1 1, year_end_date = mk_date 2017 12 31\<rparr>,
       \<lparr>fy_year = SingleYear 2016, year_start_date = mk_date 2016 1 1, year_end_date = mk_date 2016 12 31\<rparr>])"
  by (simp add: create_years.simps fy_2019_def mk_fiscal_year_def mk_date_def date_less_def
      new_fiscal_year_def add_years_def shift_years_def py_bind_def days_in_month_def leap_year_def)

lemma ex_created_feb29_short:
  "create_years (mk_date 2018 3 1) fy_feb29_short [] =
     (None,
      [\<lparr>fy_year = YearSpan 2019 2020, year_start_date = mk_date 2019 2 28, year_end_date = mk_date 2020 2 27\<rparr>,
       \<lparr>fy_year = YearSpan 2018 2019, year_start_date = mk_date 2018 2 28, year_end_date = mk_date 2019 2 27\<rparr>])"
  by (simp add: create_years.simps fy_feb29_short_def mk_fiscal_year_def mk_date_def date_less_def
      new_fiscal_year_def add_years_def shift_years_def py_bind_def days_in_month_def leap_year_def)

lemma regular_feb29_short: "regular_year fy_feb29_short"
  by (simp add: regular_year_def fy_feb29_short_def mk_fiscal_year_def mk_date_def date_less_def
      date_le_def valid_date_def feb29_def anchor_def shift_years_def days_in_month_def leap_year_def)



text \<open>
  A fiscal year that starts on 29 February and ends a day earlier, on 27 February, is
  regular: its created years do not overlap.
\<close>

lemma feb29_short_years:
  "regular_year fy_feb29_short
   \<and> created_years (mk_date 2018 3 1) fy_feb29_short =
      [\<lparr>fy_year = YearSpan 2019 2020, year_start_date = mk_date 2019 2 28, year_end_date = mk_date 2020 2 27\<rparr>,
       \<lparr>fy_year = YearSpan 2018 2019, year_start_date = mk_date 2018 2 28, year_end_date = mk_date 2019 2 27\<rparr>]"
  unfolding created_years_def ex_created_feb29_short by (simp add: regular_feb29_short)

text \<open>
  The year bound. From the fiscal year 0001-03-01 .. 0001-12-31 and the ledger date
  0001-02-01 the first \<open>add_years\<close> raises ValueError and nothing is created; from
  2019-04-01 .. 2020-03-31 and the ledger date 0001-01-01 the loop creates the years down
  to 0001-04-01 and then raises. From 0002-01-01 .. 0002-12-31 and the ledger date
  0001-06-01 the one year 0001 is created and the loop ends.
\<close>

lemma year_one_raises:
  "create_years (mk_date 1 2 1) fy_year_one table = (Some ValueError, table)"
  by (simp add: create_years.simps fy_year_one_def mk_fiscal_year_def mk_date_def date_less_def
      new_fiscal_year_def add_years_def py_bind_def)

lemma year_one_not_reached:
  "fst (create_years (mk_date 1 1 1)
          (mk_fiscal_year ''2019-2020'' (mk_date 2019 4 1) (mk_date 2020 3 31)) table)
     = Some ValueError"
proof -
  let ?fy = "mk_fiscal_year ''2019-2020'' (mk_date 2019 4 1) (mk_date 2020 3 31)"
  have "regular_year ?fy"
    by (simp add: regular_year_def mk_fiscal_year_def mk_date_def date_less_def
        date_le_def valid_date_def feb29_def anchor_def shift_years_def days_in_month_def leap_year_def)
  then have s: "steady_year ?fy" by (rule regular_steady)
  have d: "date_less (mk_date 1 1 1) (in_year_one (year_start_date ?fy))"
    by (simp add: in_year_one_def mk_fiscal_year_def mk_date_def date_less_def)
  have "fst (create_years (mk_date 1 1 1) ?fy []) = Some ValueError"
    using create_years_below_year_one[of ?fy "mk_date 1 1 1"] s d by blast
  then show ?thesis by (subst create_years_append) simp
qed

lemma year_one_reached:
  "create_years (mk_date 1 6 1) fy_year_two table =
     (None, table @ [\<lparr>fy_year = SingleYear 1, year_start_date = mk_date 1 1 1,
                       year_end_date = mk_date 1 12 31\<rparr>])"
  by (simp add: create_years.simps fy_year_two_def mk_fiscal_year_def mk_date_def date_less_def
      new_fiscal_year_def add_years_def shift_years_def py_bind_def days_in_month_def leap_year_def)

lemma py_min_no_dates: "\<forall>l \<in> set (flattened gl). l_date l = [] \<Longrightarrow> py_min (ledger_dates gl) = Inl ValueError"
proof -
  assume "\<forall>l \<in> set (flattened gl). l_date l = []"
  then have "ledger_dates gl = []" by (auto simp: ledger_dates_def filter_empty_conv)
  then show ?thesis by (simp add: py_min_def)
qed

text \<open>
  Claim C9. When no ledger line has a non-empty date (or \<open>gl_entries\<close> was never
  set), \<open>_create_fiscal_years\<close> leaves the Fiscal Year table as it is: \<open>min\<close> of the
  empty sequence raises ValueError before any fiscal year is read or created, and the
  handler of the function logs it.
\<close>

theorem no_dated_line_no_fiscal_year:
  assumes "\<forall>gl. gl_entries = Some gl \<longrightarrow> (\<forall>l \<in> set (flattened gl). l_date l = [])"
  shows "create_fiscal_years getdate gl_entries table
           = (Some (if gl_entries = None then AttributeError else ValueError), table)"
proof (cases gl_entries)
  case None
  then show ?thesis by (simp add: create_fiscal_years_def)
next
  case (Some gl)
  then have "py_min (ledger_dates gl) = Inl ValueError" using assms py_min_no_dates by blast
  then show ?thesis using Some by (simp add: create_fiscal_years_def)
qed

theorem no_dated_line_no_fiscal_year_witness:
  "create_fiscal_years ex_getdate (Some [(Some ''Bank - QB'', [undated_line])]) [fy_2019]
     = (Some ValueError, [fy_2019])"
  using no_dated_line_no_fiscal_year[of "Some [(Some ''Bank - QB'', [undated_line])]" ex_getdate "[fy_2019]"]
  by (simp add: flattened_def undated_line_def)

text \<open>
  A fiscal year longer than a calendar year is the other input on which created years
  overlap: the year created from 2019-01-01 .. 2020-12-31 ends inside it.
\<close>

lemma long_year_overlaps:
  "create_years (mk_date 2018 6 1) (mk_fiscal_year ''2019-2020'' (mk_date 2019 1 1) (mk_date 2020 12 31)) [] =
     (None,
      [\<lparr>fy_year = YearSpan 2018 2019, year_start_date = mk_date 2018 1 1, year_end_date = mk_date 2019 12 31\<rparr>])
   \<and> \<not> date_less (mk_date 2019 12 31) (mk_date 2019 1 1)"
  by (simp add: create_years.simps mk_fiscal_year_def mk_date_def date_less_def
      new_fiscal_year_def add_years_def shift_years_def py_bind_def days_in_month_def leap_year_def)

text \<open>The whole function on a ledger with one dated line and the fiscal year 2019.\<close>

lemma create_fiscal_years_example:
  "create_fiscal_years ex_getdate
     (Some [(Some ''Bank - QB'', [undated_line, undated_line\<lparr>l_date := ''2016-05-10''\<rparr>])]) [fy_2019]
   = (None, fy_2019 # created_years (mk_date 2016 5 10) fy_2019)"
proof -
  have "create_years (mk_date 2016 5 10) fy_2019 [fy_2019]
          = (None, fy_2019 # created_years (mk_date 2016 5 10) fy_2019)"
    by (subst create_years_append) (simp add: ex_created_2019)
  then show ?thesis
    by (simp add: create_fiscal_years_def ledger_dates_def flattened_def py_min_def undated_line_def
        ex_getdate_def get_oldest_fiscal_year_def)
qed

section \<open>Ledger-Entry Synthesizer and payments\<close>

lemma ledger_account_line_sides:
  "one_sided line \<Longrightarrow>
     amount (debit_in_account_currency (ledger_account_line cc line)) = l_debit line
   \<and> amount (credit_in_account_currency (ledger_account_line cc line)) = l_credit line"
  by (auto simp: one_sided_def ledger_account_line_def account_line0_def amount_def)

lemma totals_of_ledger_lines:
  "\<forall>l \<in> set ls. one_sided l \<Longrightarrow>
     total_debit (map (ledger_account_line cc) ls) = sum_list (map l_debit ls)
   \<and> total_credit (map (ledger_account_line cc) ls) = sum_list (map l_credit ls)"
  by (induction ls) (simp_all add: total_debit_def total_credit_def ledger_account_line_sides)

text \<open>
  Claim C1. For a ledger entry whose lines each have exactly one of credit and debit
  non-zero and whose debits and credits have the same sum, \<open>__save_ledger_entry_as_je\<close>
  (when no Journal Entry with the key exists yet) adds one Journal Entry whose posting
  lines are the ledger lines one for one, none more: each carries its line's account
  and exactly the non-zero side of that line; the sums of its debit and of its credit
  amounts are equal. The three callers pass the entry on with their type-prefixed key.
\<close>

theorem ledger_entry_journal_balanced:
  assumes "\<forall>l \<in> set (le_lines e). one_sided l"
      and "sum_list (map l_debit (le_lines e)) = sum_list (map l_credit (le_lines e))"
      and "\<not> journal_entry_exists s q"
  shows "\<exists>d. journal_entry_table (save_ledger_entry_as_je L e q s) = journal_entry_table s @ [d]
           \<and> je_quickbooks_id d = q \<and> je_posting_date d = le_date e
           \<and> length (je_accounts d) = length (le_lines e)
           \<and> (\<forall>k < length (le_lines e).
                 al_account (je_accounts d ! k) = l_account (le_lines e ! k)
               \<and> (l_credit (le_lines e ! k) \<noteq> 0 \<longrightarrow>
                     credit_in_account_currency (je_accounts d ! k) = Some (l_credit (le_lines e ! k))
                   \<and> debit_in_account_currency (je_accounts d ! k) = None)
               \<and> (l_debit (le_lines e ! k) \<noteq> 0 \<longrightarrow>
                     debit_in_account_currency (je_accounts d ! k) = Some (l_debit (le_lines e ! k))
                   \<and> credit_in_account_currency (je_accounts d ! k) = None))
           \<and> total_debit (je_accounts d) = total_credit (je_accounts d)"
proof -
  let ?d = "\<lparr>je_name = autoname L ''Journal Entry'' (length (journal_entry_table s)),
              je_quickbooks_id = q, je_company = company s,
              je_posting_date = le_date e,
              je_accounts = map (ledger_account_line (default_cost_center s)) (le_lines e)\<rparr>"
  have t: "journal_entry_table (save_ledger_entry_as_je L e q s) = journal_entry_table s @ [?d]"
    using assms(3) by (simp add: save_ledger_entry_as_je_def save_journal_entry'_def)
  have sides: "\<forall>k < length (le_lines e).
                 al_account (je_accounts ?d ! k) = l_account (le_lines e ! k)
               \<and> (l_credit (le_lines e ! k) \<noteq> 0 \<longrightarrow>
                     credit_in_account_currency (je_accounts ?d ! k) = Some (l_credit (le_lines e ! k))
                   \<and> debit_in_account_currency (je_accounts ?d ! k) = None)
               \<and> (l_debit (le_lines e ! k) \<noteq> 0 \<longrightarrow>
                     debit_in_account_currency (je_accounts ?d ! k) = Some (l_debit (le_lines e ! k))
                   \<and> credit_in_account_currency (je_accounts ?d ! k) = None)"
  proof (intro allI impI)
    fix k assume k: "k < length (le_lines e)"
    then have "one_sided (le_lines e ! k)" using assms(1) by simp
    then show "al_account (je_accounts ?d ! k) = l_account (le_lines e ! k)
               \<and> (l_credit (le_lines e ! k) \<noteq> 0 \<longrightarrow>
                     credit_in_account_currency (je_accounts ?d ! k) = Some (l_credit (le_lines e ! k))
                   \<and> debit_in_account_currency (je_accounts ?d ! k) = None)
               \<and> (l_debit (le_lines e ! k) \<noteq> 0 \<longrightarrow>
                     debit_in_account_currency (je_accounts ?d ! k) = Some (l_debit (le_lines e ! k))
                   \<and> credit_in_account_currency (je_accounts ?d ! k) = None)"
      using k by (auto simp: one_sided_def ledger_account_line_def account_line0_def)
  qed
  have bal: "total_debit (je_accounts ?d) = total_credit (je_accounts ?d)"
    using totals_of_ledger_lines[OF assms(1)] assms(2) by simp
  show ?thesis
    apply (rule exI[of _ ?d])
    using t sides bal by simp
qed


lemma ex_advance_payment_saved:
  "journal_entry_table (save_advance_payment lib0 ex_advance_payment migrator0) =
     [\<lparr>je_name = ''Journal Entry '', je_quickbooks_id = ''Advance Payment - 7'', je_company = ''ACME'',
       je_posting_date = ''2019-01-05'',
       je_accounts =
         [(account_line0 (Some ''Checking - QB'') ''Main - ACME'')\<lparr>credit_in_account_currency := Some 100\<rparr>,
          (account_line0 (Some ''Bank - QB'') ''Main - ACME'')\<lparr>debit_in_account_currency := Some 100\<rparr>]\<rparr>]"
  by (simp add: save_advance_payment_def save_ledger_entry_as_je_def save_journal_entry'_def
      journal_entry_exists_def migrator0_def lib0_def ex_advance_payment_def format_id_def
      ledger_account_line_def checking_line_def bank_line_def)

theorem ledger_entry_journal_balanced_witness:
  "one_sided checking_line \<and> one_sided bank_line
   \<and> \<not> journal_entry_exists migrator0 ''Advance Payment - 7''
   \<and> (\<exists>d. journal_entry_table (save_advance_payment lib0 ex_advance_payment migrator0) = [d]
          \<and> length (je_accounts d) = 2
          \<and> total_debit (je_accounts d) = total_credit (je_accounts d))"
proof -
  have h0: "one_sided checking_line" "one_sided bank_line"
    by (simp_all add: one_sided_def checking_line_def bank_line_def)
  then have h1: "\<forall>l \<in> set (le_lines ex_advance_payment). one_sided l"
    by (simp add: ex_advance_payment_def)
  have h2: "sum_list (map l_debit (le_lines ex_advance_payment))
          = sum_list (map l_credit (le_lines ex_advance_payment))"
    by (simp add: ex_advance_payment_def checking_line_def bank_line_def)
  have h3: "\<not> journal_entry_exists migrator0 ''Advance Payment - 7''"
    by (simp add: journal_entry_exists_def migrator0_def)
  from ledger_entry_journal_balanced[OF h1 h2 h3, of lib0]
  obtain d where d: "journal_entry_table
        (save_ledger_entry_as_je lib0 ex_advance_payment ''Advance Payment - 7'' migrator0)
        = journal_entry_table migrator0 @ [d]"
      "length (je_accounts d) = length (le_lines ex_advance_payment)"
      "total_debit (je_accounts d) = total_credit (je_accounts d)"
    by blast
  have "journal_entry_table (save_advance_payment lib0 ex_advance_payment migrator0) = [d]"
    using d(1) by (simp add: save_advance_payment_def ex_advance_payment_def format_id_def migrator0_def)
  moreover have "length (je_accounts d) = 2" using d(2) by (simp add: ex_advance_payment_def)
  ultimately show ?thesis using h0 h3 d(3) by blast
qed

text \<open>
  Claim C10. A payment without \<open>"DepositToAccountRef"\<close> leaves the whole state as it
  is: no document is created, no field of the migrator changes, no error is logged.
\<close>

theorem payment_without_deposit_account:
  assumes "pay_DepositToAccountRef payment = None"
  shows "save_payment L payment s = s"
  using assms by (simp add: save_payment_def)

theorem payment_without_deposit_account_witness:
  "pay_DepositToAccountRef ex_payment = None \<and> save_payment lib0 ex_payment migrator0 = migrator0"
  using payment_without_deposit_account[of ex_payment lib0 migrator0]
  by (simp add: ex_payment_def)

section \<open>Invoices: routing, items and returns\<close>



















lemma ex_charge_invoice_saved:
  "journal_entry_table (snd (save_invoice lib0 ex_charge_invoice migrator1)) =
     [\<lparr>je_name = ''Journal Entry '', je_quickbooks_id = ''Invoice - 5'', je_company = ''ACME'',
       je_posting_date = ''2019-01-05'',
       je_accounts =
         [(account_line0 (Some ''Checking - QB'') ''Main - ACME'')\<lparr>credit_in_account_currency := Some 100\<rparr>,
          (account_line0 (Some ''Bank - QB'') ''Main - ACME'')\<lparr>debit_in_account_currency := Some 100\<rparr>]\<rparr>]"
  by (simp add: save_invoice_def ex_charge_invoice_def ex_invoice_def migrator1_def migrator0_def
      save_invoice_as_journal_entry_def invoice_ledger_lines_def dict_item_def py_bind_def
      invoice_account_line_def account_type_of_def checking_line_def bank_line_def
      save_journal_entry'_def journal_entry_exists_def lib0_def Let_def)


section \<open>Idempotency of the creation paths\<close>

lemma log_error_frame [simp]:
  "company (log_error e s) = company s"
  "account_table (log_error e s) = account_table s"
  "customer_table (log_error e s) = customer_table s"
  "supplier_table (log_error e s) = supplier_table s"
  "address_table (log_error e s) = address_table s"
  "item_table (log_error e s) = item_table s"
  "sales_invoice_table (log_error e s) = sales_invoice_table s"
  "purchase_invoice_table (log_error e s) = purchase_invoice_table s"
  "journal_entry_table (log_error e s) = journal_entry_table s"
  "default_warehouse (log_error e s) = default_warehouse s"
  "documents (log_error e s) = documents s"
  by (simp_all add: log_error_def documents_def)

lemma get_account_name_by_id_log [simp]:
  "get_account_name_by_id (log_error e s) q = get_account_name_by_id s q"
  by (simp add: get_account_name_by_id_def)

subsection \<open>Journal entries\<close>




subsection \<open>Tax rates\<close>




subsection \<open>Addresses and parties\<close>


lemma create_address_frame [simp]:
  "company (create_address n dt a t s) = company s"
  "customer_table (create_address n dt a t s) = customer_table s"
  "supplier_table (create_address n dt a t s) = supplier_table s"
  by (simp_all add: create_address_def log_error_def split: sum.splits)

lemma create_addresses_frame [simp]:
  "company (create_addresses n dt p s) = company s"
  "customer_table (create_addresses n dt p s) = customer_table s"
  "supplier_table (create_addresses n dt p s) = supplier_table s"
  by (simp_all add: create_addresses_def Let_def split: option.splits)











subsection \<open>Items\<close>


lemma optional_account_log [simp]: "optional_account (log_error e s) r = optional_account s r"
  by (simp add: optional_account_def split: option.splits)

lemma item_exists_log [simp]: "item_exists (log_error e s) q = item_exists s q"
  by (simp add: item_exists_def)


subsection \<open>Sales and purchase invoices\<close>







subsection \<open>Accounts\<close>



lemma insert_account_frame [simp]:
  "company (insert_account L d s) = company s"
  "error_log (insert_account L d s) = error_log s"
  by (simp_all add: insert_account_def)







subsection \<open>Examples\<close>

lemma lib0_account_fields:
  "recursion_limit lib0 = 1000" "autoname lib0 ''Account'' n = ''Account '' @ replicate n CHR ''I''"
  "encode_company_abbr lib0 n' c = n' @ '' - '' @ c"
  "py_int lib0 ''1'' = Some 1" "py_int lib0 ''2'' = Some 2"
  by (simp_all add: lib0_def)

lemma migrator0_fields:
  "company migrator0 = ''ACME''" "account_table migrator0 = []" "error_log migrator0 = []"
  "address_table migrator0 = []"
  by (simp_all add: migrator0_def)

lemma unique_name_free:
  "\<not> account_name_exists s (encode_company_abbr L (n @ '' - QB'') (company s)) \<Longrightarrow>
   get_unique_account_name (recursion_limit L) L s n 0 = (if recursion_limit L = 0 then Inl RecursionError else Inr (n @ '' - QB''))"
  by (cases "recursion_limit L") (simp_all add: Let_def)








lemma preprocess_example:
  "preprocess_accounts lib0
     [parent_account\<lparr>is_group := False\<rparr>, child_account]
   = Inr [child_account, parent_account]"
  by (simp add: preprocess_accounts_def py_bind_def key_def child_account_def parent_account_def
      lib0_account_fields)

text \<open>
  The check of \<open>_create_address\<close> never finds an address this method has inserted (the
  id is stored as \<open>quickbooks_address_id\<close>), so the billing and the shipping address of
  one QuickBooks address id are both inserted. On a second run the method is not
  reached: it is called only for a customer or supplier that was just inserted.
\<close>

lemma address_inserted_twice:
  "length (address_table (create_address ''Amy'' ''Customer'' ex_address ''Shipping''
      (create_address ''Amy'' ''Customer'' ex_address ''Billing'' migrator0))) = 2"
  by (simp add: create_address_def address_exists_def migrator0_fields ex_address_def py_bind_def key_def)




end
